theory Spec2Isabelle
  imports Main "HOL-Library.Word" "HOL-Library.Multiset"
begin

section \<open>JavaScript strings and buffers\<close>

text \<open>
  A JavaScript string is modelled as a \<open>string\<close> whose characters are the code units
  U+0000 to U+00FF, so \<open>length\<close> is the source's \<open>.length\<close>. A \<open>Buffer\<close> is a list of
  bytes. \<open>Buffer.byteLength(s, 'utf8')\<close> counts one byte for a code unit below U+0080 and
  two bytes for the others.
\<close>

type_synonym byte = "8 word"

definition utf8_units :: "char \<Rightarrow> nat" where
  "utf8_units c = (if (of_char c :: nat) < 128 then 1 else 2)"

definition byteLength :: "string \<Rightarrow> nat" where
  "byteLength s = sum_list (map utf8_units s)"

definition startsWith :: "string \<Rightarrow> string \<Rightarrow> bool" where
  "startsWith s p = (take (length p) s = p)"

fun includes_str :: "string \<Rightarrow> string \<Rightarrow> bool" where
  "includes_str [] p = (p = [])"
| "includes_str (c # cs) p = (startsWith (c # cs) p \<or> includes_str cs p)"

fun split :: "char \<Rightarrow> string \<Rightarrow> string list" where
  "split sep [] = [[]]"
| "split sep (c # cs) =
     (if c = sep then [] # split sep cs
      else (case split sep cs of [] \<Rightarrow> [[c]] | x # xs \<Rightarrow> (c # x) # xs))"

definition pop :: "'a list \<Rightarrow> 'a option" where
  "pop xs = (if xs = [] then None else Some (last xs))"

definition first_elem :: "'a list \<Rightarrow> 'a option" where
  "first_elem xs = (case xs of [] \<Rightarrow> None | x # _ \<Rightarrow> Some x)"

definition lower_char :: "char \<Rightarrow> char" where
  "lower_char c =
     (let n = (of_char c :: nat)
      in if (65 \<le> n \<and> n \<le> 90) \<or> (192 \<le> n \<and> n \<le> 222 \<and> n \<noteq> 215)
         then char_of (n + 32) else c)"

definition toLowerCase :: "string \<Rightarrow> string" where
  "toLowerCase s = map lower_char s"

definition is_space :: "char \<Rightarrow> bool" where
  "is_space c = ((of_char c :: nat) \<in> {9, 10, 11, 12, 13, 32, 160})"

definition trim :: "string \<Rightarrow> string" where
  "trim s = rev (dropWhile is_space (rev (dropWhile is_space s)))"

text \<open>\<open>a || b\<close> on an optional string: \<open>undefined\<close> and the empty string are falsy.\<close>

definition or_else :: "string option \<Rightarrow> string \<Rightarrow> string" where
  "or_else a b = (case a of None \<Rightarrow> b | Some s \<Rightarrow> if s = [] then b else s)"

definition truthy :: "string option \<Rightarrow> bool" where
  "truthy a = (case a of None \<Rightarrow> False | Some s \<Rightarrow> s \<noteq> [])"

text \<open>A thrown value: an \<open>Error\<close> with its message, or anything else.\<close>

datatype js_error = JsError string | NonError

definition error_message :: "js_error \<Rightarrow> string" where
  "error_message e = (case e of JsError m \<Rightarrow> m | NonError \<Rightarrow> ''Unknown error'')"


section \<open>Data model (schema.ts)\<close>

datatype file_type = Html | Css | Js | Image | Payload | Other

record ExtractedFile =
  f_id :: string
  f_name :: string
  f_path :: string
  f_type :: file_type
  f_size :: nat
  f_content :: string
  f_mimeType :: string

datatype status = Pending | Processing | Completed | Failed

record ExtractionResult =
  x_id :: string
  x_url :: string
  x_status :: status
  x_files :: "ExtractedFile list"
  x_totalSize :: nat
  x_totalFiles :: nat
  x_extractedAt :: string
  x_error :: "string option"

text \<open>
  \<open>Partial<ExtractionResult>\<close>: every field may be absent (\<open>None\<close>). The optional field
  \<open>error\<close> may also be present with the value \<open>undefined\<close> (\<open>Some None\<close>); a required
  field that is present holds a value of its type.
\<close>

record ExtractionUpdates =
  u_id :: "string option"
  u_url :: "string option"
  u_status :: "status option"
  u_files :: "ExtractedFile list option"
  u_totalSize :: "nat option"
  u_totalFiles :: "nat option"
  u_extractedAt :: "string option"
  u_error :: "string option option"

definition no_updates :: ExtractionUpdates where
  "no_updates = \<lparr>u_id = None, u_url = None, u_status = None, u_files = None,
     u_totalSize = None, u_totalFiles = None, u_extractedAt = None, u_error = None\<rparr>"


section \<open>The in-memory store (storage.ts)\<close>

type_synonym extractions = "string \<rightharpoonup> ExtractionResult"

definition override :: "'a \<Rightarrow> 'a option \<Rightarrow> 'a" where
  "override old new = (case new of None \<Rightarrow> old | Some v \<Rightarrow> v)"

text \<open>The object spread \<open>{ ...existing, ...updates }\<close>.\<close>

definition spread :: "ExtractionResult \<Rightarrow> ExtractionUpdates \<Rightarrow> ExtractionResult" where
  "spread existing updates =
     \<lparr>x_id = override (x_id existing) (u_id updates),
      x_url = override (x_url existing) (u_url updates),
      x_status = override (x_status existing) (u_status updates),
      x_files = override (x_files existing) (u_files updates),
      x_totalSize = override (x_totalSize existing) (u_totalSize updates),
      x_totalFiles = override (x_totalFiles existing) (u_totalFiles updates),
      x_extractedAt = override (x_extractedAt existing) (u_extractedAt updates),
      x_error = override (x_error existing) (u_error updates)\<rparr>"

definition createExtractionResult ::
  "extractions \<Rightarrow> string \<Rightarrow> string \<Rightarrow> string \<Rightarrow> extractions \<times> ExtractionResult" where
  "createExtractionResult m uuid now url =
     (let result = \<lparr>x_id = uuid, x_url = url, x_status = Pending, x_files = [],
                     x_totalSize = 0, x_totalFiles = 0, x_extractedAt = now,
                     x_error = None\<rparr>
      in (m(uuid \<mapsto> result), result))"

definition getExtractionResult :: "extractions \<Rightarrow> string \<Rightarrow> ExtractionResult option" where
  "getExtractionResult m i = m i"

definition updateExtractionResult ::
  "extractions \<Rightarrow> string \<Rightarrow> ExtractionUpdates
     \<Rightarrow> extractions \<times> (js_error + ExtractionResult)" where
  "updateExtractionResult m i updates =
     (case m i of
        None \<Rightarrow> (m, Inl (JsError ''Extraction not found''))
      | Some existing \<Rightarrow>
          (let updated = spread existing updates
           in (m(i \<mapsto> updated), Inr updated)))"

text \<open>
  \<open>files.reduce((sum, f) => sum + f.size, 0)\<close> is a left fold over the whole array.
  Sizes are byte counts, far below the range where a JavaScript number stops being an
  exact integer, so they are natural numbers here.
\<close>

definition addFileToExtraction ::
  "extractions \<Rightarrow> string \<Rightarrow> ExtractedFile \<Rightarrow> extractions \<times> (js_error + unit)" where
  "addFileToExtraction m extractionId file =
     (case m extractionId of
        None \<Rightarrow> (m, Inl (JsError ''Extraction not found''))
      | Some extraction \<Rightarrow>
          (let fs = x_files extraction @ [file];
               extraction' = extraction\<lparr>x_files := fs, x_totalFiles := length fs,
                  x_totalSize := foldl (\<lambda>sum f. sum + f_size f) 0 fs\<rparr>
           in (m(extractionId \<mapsto> extraction'), Inr ())))"


section \<open>Base64 (\<open>Buffer.toString('base64')\<close>)\<close>

text \<open>
  The platform's encoder: the standard alphabet, three bytes to four characters, the last
  group padded with \<open>=\<close>. The decoder is its standard inverse; the source has none, it is
  what a consumer of the data URI runs.
\<close>

definition b64_alphabet :: string where
  "b64_alphabet = ''ABCDEFGHIJKLMNOPQRSTUVWXYZabcdefghijklmnopqrstuvwxyz0123456789+/''"

definition b64_char :: "nat \<Rightarrow> char" where
  "b64_char n = b64_alphabet ! n"

fun base64 :: "byte list \<Rightarrow> string" where
  "base64 (a # b # c # rest) =
     [b64_char (unat a div 4), b64_char (unat a mod 4 * 16 + unat b div 16),
      b64_char (unat b mod 16 * 4 + unat c div 64), b64_char (unat c mod 64)] @ base64 rest"
| "base64 [a, b] =
     [b64_char (unat a div 4), b64_char (unat a mod 4 * 16 + unat b div 16),
      b64_char (unat b mod 16 * 4), CHR ''='']"
| "base64 [a] = [b64_char (unat a div 4), b64_char (unat a mod 4 * 16), CHR ''='', CHR ''='']"
| "base64 [] = []"

fun index_of :: "'a \<Rightarrow> 'a list \<Rightarrow> nat option" where
  "index_of x [] = None"
| "index_of x (y # ys) = (if x = y then Some 0 else map_option Suc (index_of x ys))"

definition b64_index :: "char \<Rightarrow> nat option" where
  "b64_index c = index_of c b64_alphabet"

fun base64_decode :: "string \<Rightarrow> byte list option" where
  "base64_decode (c0 # c1 # c2 # c3 # rest) =
     (case (b64_index c0, b64_index c1) of
        (Some s0, Some s1) \<Rightarrow>
          (if rest = [] \<and> c2 = CHR ''='' \<and> c3 = CHR ''=''
           then Some [of_nat (s0 * 4 + s1 div 16)]
           else (case b64_index c2 of
                   None \<Rightarrow> None
                 | Some s2 \<Rightarrow>
                     (if rest = [] \<and> c3 = CHR ''=''
                      then Some [of_nat (s0 * 4 + s1 div 16), of_nat (s1 mod 16 * 16 + s2 div 4)]
                      else (case b64_index c3 of
                              None \<Rightarrow> None
                            | Some s3 \<Rightarrow>
                                map_option
                                  (\<lambda>bs. [of_nat (s0 * 4 + s1 div 16),
                                         of_nat (s1 mod 16 * 16 + s2 div 4),
                                         of_nat (s2 mod 4 * 64 + s3)] @ bs)
                                  (base64_decode rest)))))
      | _ \<Rightarrow> None)"
| "base64_decode [] = Some []"
| "base64_decode _ = None"


section \<open>Content classification (routes.ts)\<close>

definition ext_in :: "string option \<Rightarrow> string list \<Rightarrow> bool" where
  "ext_in ext names = (case ext of None \<Rightarrow> False | Some e \<Rightarrow> e \<in> set names)"

text \<open>\<open>fileName.split('.').pop()?.toLowerCase()\<close>\<close>

definition extension :: "string \<Rightarrow> string option" where
  "extension fileName = map_option toLowerCase (pop (split CHR ''.'' fileName))"

definition getFileType :: "string \<Rightarrow> file_type" where
  "getFileType fileName =
     (let ext = extension fileName
      in if ext_in ext [''css''] then Css
         else if ext_in ext [''js'', ''mjs'', ''ts'', ''jsx'', ''tsx''] then Js
         else if ext_in ext [''html'', ''htm''] then Html
         else if ext_in ext [''png'', ''jpg'', ''jpeg'', ''gif'', ''svg'', ''webp'', ''ico'',
                             ''bmp'', ''tiff''] then Image
         else if ext_in ext [''json'', ''xml''] then Payload
         else if ext_in ext [''woff'', ''woff2'', ''ttf'', ''eot'', ''otf''] then Other
         else if ext_in ext [''mp4'', ''webm'', ''ogg'', ''avi'', ''mov''] then Other
         else if ext_in ext [''mp3'', ''wav'', ''flac'', ''aac''] then Other
         else if ext_in ext [''pdf'', ''doc'', ''docx'', ''txt''] then Other
         else Other)"

fun getFolderPath :: "file_type \<Rightarrow> string" where
  "getFolderPath Css = ''css''"
| "getFolderPath Js = ''js''"
| "getFolderPath Image = ''images''"
| "getFolderPath Payload = ''payloads''"
| "getFolderPath _ = ''assets''"

definition getMimeType :: "string \<Rightarrow> string" where
  "getMimeType fileName =
     (let ext = extension fileName
      in if ext_in ext [''css''] then ''text/css''
         else if ext_in ext [''js''] then ''application/javascript''
         else if ext_in ext [''html'', ''htm''] then ''text/html''
         else if ext_in ext [''json''] then ''application/json''
         else if ext_in ext [''png''] then ''image/png''
         else if ext_in ext [''jpg'', ''jpeg''] then ''image/jpeg''
         else if ext_in ext [''gif''] then ''image/gif''
         else if ext_in ext [''svg''] then ''image/svg+xml''
         else ''text/plain'')"

definition binary_extensions :: "string list" where
  "binary_extensions = [''png'', ''jpg'', ''jpeg'', ''gif'', ''webp'', ''ico'', ''bmp'', ''tiff'',
     ''woff'', ''woff2'', ''ttf'', ''eot'', ''otf'', ''mp4'', ''webm'', ''ogg'', ''mp3'', ''wav'',
     ''pdf'']"


section \<open>The platform and the network\<close>

text \<open>
  What the code takes from its libraries is a parameter of the model, collected in the
  record \<open>env\<close>:
  \<^item> \<open>randomUUID\<close>: the value drawn by each call of \<open>randomUUID()\<close>, named by its place in
    the code and by the item being processed there;
  \<^item> \<open>url_parse\<close>: \<open>new URL(input, base)\<close> (\<open>None\<close> when it throws);
  \<^item> \<open>cheerio\<close>: the elements \<open>$(selector)\<close> finds in the document loaded from a string, in
    document order; \<open>cheerio_json\<close>: what \<open>cheerio.load\<close> does with a value that is not a
    string, a throw or a document;
  \<^item> \<open>byteLength_message\<close>: the message of the \<open>TypeError\<close> that \<open>Buffer.byteLength\<close> throws
    for a value that is not a string;
  \<^item> \<open>match_all\<close>, \<open>replace_groups\<close>: \<open>String.match\<close> with a global regular expression
    (no match is the empty list) and \<open>String.replace\<close> by the expression's groups;
  \<^item> \<open>JSON_stringify\<close>, \<open>JSON_stringify_wrapped\<close>: \<open>JSON.stringify(data)\<close> and
    \<open>JSON.stringify({url, status, headers, data}, null, 2)\<close>;
  \<^item> \<open>get_page\<close>, \<open>get_buffer\<close>, \<open>get_text\<close>, \<open>get_json\<close>: \<open>axios.get\<close> with the options
    of the root fetch, of a binary asset, of a text asset and of a payload probe; \<open>Inl\<close> is
    the rejection (network error, timeout, status outside 2xx, response over the size limit);
  \<^item> \<open>settle_order\<close>: the order in which the fetches of one batch complete.
\<close>

record parsed_url =
  href :: string
  pathname :: string

record element =
  attrs :: "(string \<times> string) list"
  html :: "string option"

definition attr :: "element \<Rightarrow> string \<Rightarrow> string option" where
  "attr el n = map_of (attrs el) n"

datatype selector =
    SelStylesheetLink \<comment> \<open>\<^verbatim>\<open>link[rel="stylesheet"]\<close>\<close>
  | SelScriptSrc \<comment> \<open>\<^verbatim>\<open>script[src]\<close>\<close>
  | SelImgSrc \<comment> \<open>\<^verbatim>\<open>img[src]\<close>\<close>
  | SelLinkHref \<comment> \<open>\<^verbatim>\<open>link[href]\<close>\<close>
  | SelScriptNoSrc \<comment> \<open>\<^verbatim>\<open>script:not([src])\<close>\<close>
  | SelStyle \<comment> \<open>\<^verbatim>\<open>style\<close>\<close>
  | SelMedia \<comment> \<open>\<^verbatim>\<open>source[src], video[src], audio[src], embed[src], object[data], iframe[src]\<close>\<close>
  | SelAll \<comment> \<open>\<^verbatim>\<open>*\<close>\<close>
  | SelScript \<comment> \<open>\<^verbatim>\<open>script\<close>\<close>

datatype regex =
    ReDynamicImport \<comment> \<open>\<open>import('..')\<close>, \<open>require('..')\<close> and webpack chunk targets\<close>
  | ReQuoted \<comment> \<open>the quoted part of such a match\<close>
  | ReUrl \<comment> \<open>\<open>url(..)\<close>\<close>
  | ReCssImport \<comment> \<open>\<open>@import url(..)\<close> and \<open>@import '..'\<close>\<close>
  | ReApiLiteral \<comment> \<open>quoted \<open>/api/..\<close>, \<open>http(s)://../api/..\<close>, \<open>/graphql\<close>, \<open>/v1/..\<close>\<close>

datatype draw =
    DrawExtractionId
  | DrawInlineScriptName nat | DrawInlineScriptId nat
  | DrawInlineStyleName nat | DrawInlineStyleId nat
  | DrawSourceId
  | DrawAssetName string | DrawAssetId string
  | DrawPayloadId string

datatype json =
    JNull | JBool bool | JNum int | JStr string | JArr "json list" | JObj "(string \<times> json) list"

text \<open>
  The truthiness of a parsed body. Numbers are integers here: a fractional number is truthy
  like any non-zero one.
\<close>

fun json_truthy :: "json \<Rightarrow> bool" where
  "json_truthy JNull = False"
| "json_truthy (JBool b) = b"
| "json_truthy (JNum n) = (n \<noteq> 0)"
| "json_truthy (JStr s) = (s \<noteq> [])"
| "json_truthy _ = True"

text \<open>
  The body of a text response is a string; for anything else the code calls
  \<open>Buffer.from(data).toString('utf8')\<close>, whose result (\<open>None\<close> when it throws) comes with
  the response.
\<close>

datatype text_data = TextString string | TextOther "string option"

text \<open>
  The body of the root response, fetched with no \<open>responseType\<close>: the text of the page,
  or the value parsed from it when the text is JSON that is not a string.
\<close>

datatype page_data = PageText string | PageJson json

text \<open>A request, by the place in the code that makes it.\<close>

datatype request = GetPage string | GetAsset string | GetProbe string

record 'd response =
  data :: 'd
  status_code :: nat
  headers :: "(string \<times> string) list"

definition header :: "('d, 'z) response_scheme \<Rightarrow> string \<Rightarrow> string option" where
  "header r n = map_of (headers r) n"

record env =
  randomUUID :: "draw \<Rightarrow> string"
  now :: string
  url_parse :: "string \<Rightarrow> string option \<Rightarrow> parsed_url option"
  cheerio :: "string \<Rightarrow> selector \<Rightarrow> element list"
  cheerio_json :: "json \<Rightarrow> js_error + (selector \<Rightarrow> element list)"
  byteLength_message :: "json \<Rightarrow> string"
  match_all :: "regex \<Rightarrow> string \<Rightarrow> string list"
  replace_groups :: "regex \<Rightarrow> string \<Rightarrow> string"
  JSON_stringify :: "json \<Rightarrow> string"
  JSON_stringify_wrapped :: "string \<Rightarrow> nat \<Rightarrow> (string \<times> string) list \<Rightarrow> json \<Rightarrow> string"
  get_page :: "string \<Rightarrow> js_error + page_data response"
  get_buffer :: "string \<Rightarrow> js_error + byte list response"
  get_text :: "string \<Rightarrow> js_error + text_data response"
  get_json :: "string \<Rightarrow> js_error + json response"
  settle_order :: "string list \<Rightarrow> string list"

text \<open>A \<open>Set<string>\<close> keeps its elements in insertion order.\<close>

definition set_add :: "'a list \<Rightarrow> 'a \<Rightarrow> 'a list" where
  "set_add xs x = (if x \<in> set xs then xs else xs @ [x])"

definition digit_char :: "nat \<Rightarrow> char" where
  "digit_char d = char_of (48 + d)"

function decimal :: "nat \<Rightarrow> string" where
  "decimal n = (if n < 10 then [digit_char n] else decimal (n div 10) @ [digit_char (n mod 10)])"
  by pat_completeness auto
termination
  by (relation "measure (\<lambda>n. n)") auto

declare decimal.simps [simp del]

text \<open>
  The state of one run: the store, the \<open>assets\<close> set of \<open>extractWebsiteFiles\<close>, and the
  requests made so far, in their order.
\<close>

record run_state =
  store :: extractions
  assets :: "string list"
  requests :: "request list"


section \<open>The extraction pipeline (routes.ts)\<close>

definition resolveUrl :: "env \<Rightarrow> string \<Rightarrow> string \<Rightarrow> string" where
  "resolveUrl env base relative =
     (case url_parse env relative (Some base) of
        Some u \<Rightarrow> href u
      | None \<Rightarrow> relative)"

definition add_ref :: "env \<Rightarrow> string \<Rightarrow> string list \<Rightarrow> string option \<Rightarrow> string list" where
  "add_ref env url as ref =
     (case ref of
        None \<Rightarrow> as
      | Some r \<Rightarrow> if r = [] then as else set_add as (resolveUrl env url r))"

definition link_wanted :: "string \<Rightarrow> string option \<Rightarrow> bool" where
  "link_wanted h rel =
     (rel = Some ''icon'' \<or> rel = Some ''shortcut icon'' \<or> rel = Some ''apple-touch-icon''
      \<or> rel = Some ''manifest'' \<or> rel = Some ''preload'' \<or> rel = Some ''prefetch''
      \<or> includes_str h ''.woff'' \<or> includes_str h ''.ttf'' \<or> includes_str h ''.eot'')"

definition add_link :: "env \<Rightarrow> string \<Rightarrow> string list \<Rightarrow> element \<Rightarrow> string list" where
  "add_link env url as el =
     (case attr el ''href'' of
        None \<Rightarrow> as
      | Some h \<Rightarrow>
          if h \<noteq> [] \<and> link_wanted h (attr el ''rel'')
          then set_add as (resolveUrl env url h) else as)"

text \<open>Inline scripts: a synthesised file each, and the import targets found in the text.\<close>

definition add_dynamic_import :: "env \<Rightarrow> string \<Rightarrow> string list \<Rightarrow> string \<Rightarrow> string list" where
  "add_dynamic_import env url as m =
     (let importPath = replace_groups env ReQuoted m
      in if importPath \<noteq> [] \<and> \<not> startsWith importPath ''data:''
         then set_add as (resolveUrl env url importPath) else as)"

definition inline_script_file :: "env \<Rightarrow> nat \<Rightarrow> string \<Rightarrow> ExtractedFile" where
  "inline_script_file env i scriptContent =
     (let fileName = ''inline-script-'' @ take 8 (randomUUID env (DrawInlineScriptName i)) @ ''.js''
      in \<lparr>f_id = randomUUID env (DrawInlineScriptId i), f_name = fileName,
          f_path = ''js/'' @ fileName, f_type = Js, f_size = byteLength scriptContent,
          f_content = scriptContent, f_mimeType = ''application/javascript''\<rparr>)"

definition inline_script_step ::
  "env \<Rightarrow> string \<Rightarrow> string \<Rightarrow> run_state \<Rightarrow> nat \<times> element \<Rightarrow> run_state" where
  "inline_script_step env extractionId url st ie =
     (case html (snd ie) of
        None \<Rightarrow> st
      | Some scriptContent \<Rightarrow>
          if scriptContent \<noteq> [] \<and> trim scriptContent \<noteq> []
          then st\<lparr>store := fst (addFileToExtraction (store st) extractionId
                                   (inline_script_file env (fst ie) scriptContent)),
                  assets := foldl (add_dynamic_import env url) (assets st)
                                  (match_all env ReDynamicImport scriptContent)\<rparr>
          else st)"

definition inline_style_file :: "env \<Rightarrow> nat \<Rightarrow> string \<Rightarrow> ExtractedFile" where
  "inline_style_file env i styleContent =
     (let fileName = ''inline-style-'' @ take 8 (randomUUID env (DrawInlineStyleName i)) @ ''.css''
      in \<lparr>f_id = randomUUID env (DrawInlineStyleId i), f_name = fileName,
          f_path = ''css/'' @ fileName, f_type = Css, f_size = byteLength styleContent,
          f_content = styleContent, f_mimeType = ''text/css''\<rparr>)"

definition inline_style_step ::
  "env \<Rightarrow> string \<Rightarrow> run_state \<Rightarrow> nat \<times> element \<Rightarrow> run_state" where
  "inline_style_step env extractionId st ie =
     (case html (snd ie) of
        None \<Rightarrow> st
      | Some styleContent \<Rightarrow>
          if styleContent \<noteq> [] \<and> trim styleContent \<noteq> []
          then st\<lparr>store := fst (addFileToExtraction (store st) extractionId
                                   (inline_style_file env (fst ie) styleContent))\<rparr>
          else st)"

text \<open>\<open>$(el).attr('src') || $(el).attr('data')\<close>\<close>

definition src_or_data :: "element \<Rightarrow> string option" where
  "src_or_data el = (if truthy (attr el ''src'') then attr el ''src'' else attr el ''data'')"

definition add_style_urls :: "env \<Rightarrow> string \<Rightarrow> string list \<Rightarrow> element \<Rightarrow> string list" where
  "add_style_urls env url as el =
     (case attr el ''style'' of
        None \<Rightarrow> as
      | Some style \<Rightarrow>
          if style = [] then as
          else foldl (\<lambda>acc m. set_add acc (resolveUrl env url (replace_groups env ReUrl m)))
                     as (match_all env ReUrl style))"

definition indexed :: "'a list \<Rightarrow> (nat \<times> 'a) list" where
  "indexed xs = zip [0..<length xs] xs"

text \<open>
  \<open>cheerio.load(content)\<close>: a string always loads; for any other value the library
  decides.
\<close>

definition load_page :: "env \<Rightarrow> page_data \<Rightarrow> js_error + (selector \<Rightarrow> element list)" where
  "load_page env content =
     (case content of
        PageText s \<Rightarrow> Inr (cheerio env s)
      | PageJson j \<Rightarrow> cheerio_json env j)"

text \<open>Everything between loading the page and the source page, in the order of the code.\<close>

definition scan_page ::
  "env \<Rightarrow> string \<Rightarrow> string \<Rightarrow> (selector \<Rightarrow> element list) \<Rightarrow> run_state \<Rightarrow> run_state" where
  "scan_page env extractionId url doc st =
     (let a1 = foldl (\<lambda>as el. add_ref env url as (attr el ''href'')) [] (doc SelStylesheetLink);
          a2 = foldl (\<lambda>as el. add_ref env url as (attr el ''src'')) a1 (doc SelScriptSrc);
          a3 = foldl (\<lambda>as el. add_ref env url as (attr el ''src'')) a2 (doc SelImgSrc);
          a4 = foldl (add_link env url) a3 (doc SelLinkHref);
          st5 = foldl (inline_script_step env extractionId url) (st\<lparr>assets := a4\<rparr>)
                      (indexed (doc SelScriptNoSrc));
          st6 = foldl (inline_style_step env extractionId) st5 (indexed (doc SelStyle));
          a7 = foldl (\<lambda>as el. add_ref env url as (src_or_data el)) (assets st6) (doc SelMedia);
          a8 = foldl (add_style_urls env url) a7 (doc SelAll)
      in st6\<lparr>assets := a8\<rparr>)"

definition source_file :: "env \<Rightarrow> string \<Rightarrow> ExtractedFile" where
  "source_file env content =
     \<lparr>f_id = randomUUID env DrawSourceId, f_name = ''index.html'', f_path = ''index.html'',
      f_type = Html, f_size = byteLength content, f_content = content,
      f_mimeType = ''text/html''\<rparr>"

text \<open>
  Building the source file evaluates \<open>Buffer.byteLength(content, 'utf8')\<close>, which throws a
  \<open>TypeError\<close> when the body is not a string.
\<close>

definition source_file_of :: "env \<Rightarrow> page_data \<Rightarrow> js_error + ExtractedFile" where
  "source_file_of env content =
     (case content of
        PageText s \<Rightarrow> Inr (source_file env s)
      | PageJson j \<Rightarrow> Inl (JsError (byteLength_message env j)))"

text \<open>
  One asset of a batch, up to its request: the checks and the file name. \<open>None\<close> is a
  return or a throw before the request is made.
\<close>

record pending =
  p_url :: string
  p_fileName :: string
  p_fileType :: file_type
  p_isBinary :: bool

definition prepare_asset :: "env \<Rightarrow> string \<Rightarrow> pending option" where
  "prepare_asset env assetUrl =
     (if assetUrl = [] \<or> length assetUrl > 2000 then None
      else (case url_parse env assetUrl None of
              None \<Rightarrow> None
            | Some urlObj \<Rightarrow>
                (let fileName0 = or_else (pop (split CHR ''/'' (pathname urlObj))) ''file'';
                     cleanFileName = first_elem (split CHR ''?'' fileName0);
                     fileName =
                       (if \<not> truthy cleanFileName
                        then ''asset-'' @ take 8 (randomUUID env (DrawAssetName assetUrl))
                        else or_else cleanFileName [])
                 in if startsWith assetUrl ''data:'' \<or> length assetUrl > 1000 then None
                    else Some \<lparr>p_url = assetUrl, p_fileName = fileName,
                           p_fileType = getFileType fileName,
                           p_isBinary =
                             (or_else (extension fileName) [] \<in> set binary_extensions)\<rparr>)))"

text \<open>The file built from a response; \<open>None\<close> when the request or the conversion throws.\<close>

definition asset_file :: "env \<Rightarrow> pending \<Rightarrow> ExtractedFile option" where
  "asset_file env p =
     (let fileName = p_fileName p; folderPath = getFolderPath (p_fileType p)
      in if p_isBinary p
         then (case get_buffer env (p_url p) of
                 Inl e \<Rightarrow> None
               | Inr response \<Rightarrow>
                   Some \<lparr>f_id = randomUUID env (DrawAssetId (p_url p)), f_name = fileName,
                     f_path = folderPath @ ''/'' @ fileName, f_type = p_fileType p,
                     f_size = length (data response),
                     f_content = ''data:''
                       @ or_else (header response ''content-type'') (getMimeType fileName)
                       @ '';base64,'' @ base64 (data response),
                     f_mimeType =
                       or_else (header response ''content-type'') (getMimeType fileName)\<rparr>)
         else (case get_text env (p_url p) of
                 Inl e \<Rightarrow> None
               | Inr response \<Rightarrow>
                   (case (case data response of TextString s \<Rightarrow> Some s | TextOther d \<Rightarrow> d) of
                      None \<Rightarrow> None
                    | Some content \<Rightarrow>
                        Some \<lparr>f_id = randomUUID env (DrawAssetId (p_url p)), f_name = fileName,
                          f_path = folderPath @ ''/'' @ fileName, f_type = p_fileType p,
                          f_size = byteLength content, f_content = content,
                          f_mimeType =
                            or_else (header response ''content-type'')
                                    (getMimeType fileName)\<rparr>)))"

text \<open>References inside a fetched stylesheet are added to \<open>assets\<close>.\<close>

definition add_css_ref :: "env \<Rightarrow> regex \<Rightarrow> string \<Rightarrow> string list \<Rightarrow> string \<Rightarrow> string list" where
  "add_css_ref env re assetUrl as m =
     (let path = replace_groups env re m
      in if path \<noteq> [] \<and> \<not> startsWith path ''data:''
         then set_add as (resolveUrl env assetUrl path) else as)"

definition scan_css :: "env \<Rightarrow> pending \<Rightarrow> string \<Rightarrow> string list \<Rightarrow> string list" where
  "scan_css env p content as =
     (if p_fileType p = Css \<and> \<not> p_isBinary p \<and> \<not> startsWith content ''data:''
      then foldl (add_css_ref env ReUrl (p_url p))
                 (foldl (add_css_ref env ReCssImport (p_url p)) as
                        (match_all env ReCssImport content))
                 (match_all env ReUrl content)
      else as)"

text \<open>
  One member of a batch once its request has settled. Every throw inside it is caught:
  the state is then the one before.
\<close>

definition settle_asset :: "env \<Rightarrow> string \<Rightarrow> run_state \<Rightarrow> string \<Rightarrow> run_state" where
  "settle_asset env extractionId st assetUrl =
     (case prepare_asset env assetUrl of
        None \<Rightarrow> st
      | Some p \<Rightarrow>
          (case asset_file env p of
             None \<Rightarrow> st
           | Some file \<Rightarrow>
               (case addFileToExtraction (store st) extractionId file of
                  (m, Inl e) \<Rightarrow> st
                | (m, Inr u) \<Rightarrow>
                    st\<lparr>store := m, assets := scan_css env p (f_content file) (assets st)\<rparr>)))"

text \<open>
  \<open>Promise.allSettled(batch.map(...))\<close>: every member runs up to its request in the order
  of the batch, then the members finish in the order the network settles them.
\<close>

definition process_batch :: "env \<Rightarrow> string \<Rightarrow> run_state \<Rightarrow> string list \<Rightarrow> run_state" where
  "process_batch env extractionId st batch =
     foldl (settle_asset env extractionId)
           (st\<lparr>requests := requests st
              @ map (\<lambda>p. GetAsset (p_url p)) (List.map_filter (prepare_asset env) batch)\<rparr>)
           (settle_order env batch)"

definition batchSize :: nat where
  "batchSize = 10"

text \<open>\<open>for (let i = 0; i < assetArray.length; i += batchSize) assetArray.slice(i, i + batchSize)\<close>\<close>

function batches :: "nat \<Rightarrow> 'a list \<Rightarrow> 'a list list" where
  "batches i assetArray =
     (if i < length assetArray
      then take batchSize (drop i assetArray) # batches (i + batchSize) assetArray
      else [])"
  by pat_completeness auto
termination
  by (relation "measure (\<lambda>(i, assetArray). length assetArray - i)") (auto simp: batchSize_def)

declare batches.simps [simp del]

text \<open>The payload probe.\<close>

definition strip_quotes :: "string \<Rightarrow> string" where
  "strip_quotes m = filter (\<lambda>c. c \<noteq> CHR 0x27 \<and> c \<noteq> CHR 0x22) m"

definition commonEndpoints :: "string list" where
  "commonEndpoints = [''/api/status'', ''/api/health'', ''/api/version'', ''/graphql'']"

definition potentialApiUrls ::
  "env \<Rightarrow> string \<Rightarrow> (selector \<Rightarrow> element list) \<Rightarrow> string list" where
  "potentialApiUrls env url doc =
     foldl (\<lambda>acc endpoint. set_add acc (resolveUrl env url endpoint))
       (foldl (\<lambda>acc el.
                 foldl (\<lambda>acc' m. set_add acc' (resolveUrl env url (strip_quotes m))) acc
                       (match_all env ReApiLiteral (or_else (html el) [])))
              [] (doc SelScript))
       commonEndpoints"

definition payload_file :: "env \<Rightarrow> string \<Rightarrow> nat \<Rightarrow> json response \<Rightarrow> ExtractedFile" where
  "payload_file env apiUrl payloadCount apiResponse =
     (let fileName = ''api-response-'' @ decimal payloadCount @ ''.json''
      in \<lparr>f_id = randomUUID env (DrawPayloadId apiUrl), f_name = fileName,
          f_path = ''payloads/'' @ fileName, f_type = Payload,
          f_size = byteLength (JSON_stringify env (data apiResponse)),
          f_content = JSON_stringify_wrapped env apiUrl (status_code apiResponse)
                        (headers apiResponse) (data apiResponse),
          f_mimeType = ''application/json''\<rparr>)"

definition is_json_payload :: "json response \<Rightarrow> bool" where
  "is_json_payload apiResponse =
     (json_truthy (data apiResponse)
      \<and> (case header apiResponse ''content-type'' of
            None \<Rightarrow> False
          | Some ct \<Rightarrow> includes_str ct ''json''))"

definition probe_step ::
  "env \<Rightarrow> string \<Rightarrow> run_state \<times> nat \<Rightarrow> string \<Rightarrow> run_state \<times> nat" where
  "probe_step env extractionId sp apiUrl =
     (let st = (fst sp)\<lparr>requests := requests (fst sp) @ [GetProbe apiUrl]\<rparr>;
          payloadCount = snd sp
      in case get_json env apiUrl of
           Inl e \<Rightarrow> (st, payloadCount)
         | Inr apiResponse \<Rightarrow>
             if is_json_payload apiResponse
             then (st\<lparr>store := fst (addFileToExtraction (store st) extractionId
                        (payload_file env apiUrl (payloadCount + 1) apiResponse))\<rparr>,
                   payloadCount + 1)
             else (st, payloadCount))"

definition probe_payloads ::
  "env \<Rightarrow> string \<Rightarrow> string \<Rightarrow> (selector \<Rightarrow> element list) \<Rightarrow> run_state \<Rightarrow> run_state" where
  "probe_payloads env extractionId url doc st =
     fst (foldl (probe_step env extractionId) (st, 0) (take 5 (potentialApiUrls env url doc)))"

definition extractWebsiteFiles ::
  "env \<Rightarrow> run_state \<Rightarrow> string \<Rightarrow> string \<Rightarrow> bool \<Rightarrow> bool \<Rightarrow> run_state \<times> (js_error + unit)" where
  "extractWebsiteFiles env st0 extractionId url includePayloads includeSourcePage =
     (case updateExtractionResult (store st0) extractionId
             (no_updates\<lparr>u_status := Some Processing\<rparr>) of
        (m, Inl e) \<Rightarrow> (st0, Inl e)
      | (m, Inr r) \<Rightarrow>
          (let st1 = st0\<lparr>store := m, requests := requests st0 @ [GetPage url]\<rparr>
           in case get_page env url of
                Inl e \<Rightarrow> (st1, Inl e)
              | Inr mainResponse \<Rightarrow>
                  (let content = data mainResponse
                   in case load_page env content of
                        Inl e \<Rightarrow> (st1, Inl e)
                      | Inr doc \<Rightarrow>
                          (let st2 = scan_page env extractionId url doc st1
                           in case (if includeSourcePage
                                    then (case source_file_of env content of
                                            Inl e \<Rightarrow> (store st2, Inl e)
                                          | Inr sourceFile \<Rightarrow>
                                              addFileToExtraction (store st2) extractionId
                                                sourceFile)
                                    else (store st2, Inr ())) of
                                (m3, Inl e) \<Rightarrow> (st2, Inl e)
                              | (m3, Inr u) \<Rightarrow>
                                  (let st3 = st2\<lparr>store := m3\<rparr>;
                                       assetArray = assets st3;
                                       st4 = foldl (process_batch env extractionId) st3
                                                   (batches 0 assetArray);
                                       st5 = (if includePayloads
                                              then probe_payloads env extractionId url doc st4
                                              else st4)
                                   in case updateExtractionResult (store st5) extractionId
                                             (no_updates\<lparr>u_status := Some Completed\<rparr>) of
                                        (m6, Inl e) \<Rightarrow> (st5, Inl e)
                                      | (m6, Inr r') \<Rightarrow> (st5\<lparr>store := m6\<rparr>, Inr ()))))))"

text \<open>
  The \<open>POST /api/extract\<close> handler after validation: create the record, run the
  extraction, and on a rejection record the failure.
\<close>

definition startExtraction :: "env \<Rightarrow> extractions \<Rightarrow> string \<Rightarrow> bool \<Rightarrow> bool \<Rightarrow> run_state" where
  "startExtraction env m url includePayloads includeSourcePage =
     (case createExtractionResult m (randomUUID env DrawExtractionId) (now env) url of
        (m1, extraction) \<Rightarrow>
          (case extractWebsiteFiles env \<lparr>store = m1, assets = [], requests = []\<rparr>
                  (x_id extraction) url includePayloads includeSourcePage of
             (st, Inr u) \<Rightarrow> st
           | (st, Inl error) \<Rightarrow>
               st\<lparr>store := fst (updateExtractionResult (store st) (x_id extraction)
                        (no_updates\<lparr>u_status := Some Failed,
                                    u_error := Some (Some (error_message error))\<rparr>))\<rparr>))"


section \<open>The standalone server (the second implementation)\<close>

text \<open>
  The repository holds a second, self-contained server with its own helpers of the same
  names, its own in-memory map and its own \<open>extractWebsiteFiles\<close>. Its definitions carry
  the prefix \<open>srv_\<close>. It is plain JavaScript: a category is a string, the content of a
  fetched asset is the \<open>Buffer\<close> itself, and the record in the map is mutated in place.
\<close>

definition srv_resolveUrl :: "env \<Rightarrow> string \<Rightarrow> string \<Rightarrow> string option" where
  "srv_resolveUrl env base relative =
     (case url_parse env relative (Some base) of
        Some u \<Rightarrow> Some (href u)
      | None \<Rightarrow> None)"

definition srv_getFileExtension :: "env \<Rightarrow> string \<Rightarrow> string" where
  "srv_getFileExtension env url =
     (case url_parse env url None of
        Some u \<Rightarrow> or_else (extension (pathname u)) []
      | None \<Rightarrow> [])"

definition srv_getFileType :: "env \<Rightarrow> string \<Rightarrow> string option \<Rightarrow> string" where
  "srv_getFileType env url mimeType =
     (let ext = srv_getFileExtension env url;
          mt = or_else mimeType []
      in if truthy mimeType \<and> includes_str mt ''text/html'' then ''html''
         else if truthy mimeType \<and> includes_str mt ''text/css'' then ''css''
         else if truthy mimeType \<and> includes_str mt ''javascript'' then ''js''
         else if truthy mimeType \<and> includes_str mt ''image/'' then ''image''
         else if truthy mimeType \<and> includes_str mt ''font/'' then ''font''
         else if ext \<in> set [''html'', ''htm''] then ''html''
         else if ext \<in> set [''css''] then ''css''
         else if ext \<in> set [''js'', ''mjs'', ''jsx'', ''ts'', ''tsx''] then ''js''
         else if ext \<in> set [''png'', ''jpg'', ''jpeg'', ''gif'', ''svg'', ''webp'', ''ico'']
              then ''image''
         else if ext \<in> set [''woff'', ''woff2'', ''ttf'', ''eot'', ''otf''] then ''font''
         else if ext \<in> set [''json''] then ''json''
         else if ext \<in> set [''xml''] then ''xml''
         else ''other'')"

text \<open>\<open>assetType === 'css' ? 'css' : assetType === 'js' ? 'js' : ...\<close>\<close>

definition srv_folder :: "string \<Rightarrow> string" where
  "srv_folder assetType =
     (if assetType = ''css'' then ''css''
      else if assetType = ''js'' then ''js''
      else if assetType = ''image'' then ''images''
      else if assetType = ''font'' then ''fonts''
      else ''assets'')"

definition srv_mimeTypes :: "(string \<times> string) list" where
  "srv_mimeTypes =
     [(''html'', ''text/html''), (''css'', ''text/css''), (''js'', ''application/javascript''),
      (''json'', ''application/json''), (''xml'', ''application/xml''), (''png'', ''image/png''),
      (''jpg'', ''image/jpeg''), (''jpeg'', ''image/jpeg''), (''gif'', ''image/gif''),
      (''svg'', ''image/svg+xml''), (''webp'', ''image/webp''), (''ico'', ''image/x-icon''),
      (''woff'', ''font/woff''), (''woff2'', ''font/woff2''), (''ttf'', ''font/ttf''),
      (''eot'', ''application/vnd.ms-fontobject''), (''otf'', ''font/otf'')]"

text \<open>
  \<open>mimeTypes[ext]\<close> reads an object literal, so the two lower-case names every object
  inherits, \<open>constructor\<close> and \<open>__proto__\<close>, give a truthy value that is not a string.
\<close>

datatype mime_value = MimeString string | MimeInherited

definition srv_getMimeType :: "env \<Rightarrow> string \<Rightarrow> string \<Rightarrow> mime_value" where
  "srv_getMimeType env url type =
     (let ext = srv_getFileExtension env url
      in if ext \<in> set [''constructor'', ''__proto__''] then MimeInherited
         else (case map_of srv_mimeTypes ext of
                 Some m \<Rightarrow> MimeString m
               | None \<Rightarrow>
                   (case map_of srv_mimeTypes type of
                      Some m \<Rightarrow> MimeString m
                    | None \<Rightarrow> MimeString ''application/octet-stream'')))"

datatype srv_content = Str string | Buf "byte list"

definition is_buffer :: "srv_content \<Rightarrow> bool" where
  "is_buffer content = (case content of Buf b \<Rightarrow> True | Str s \<Rightarrow> False)"

definition srv_isValidContent :: "env \<Rightarrow> srv_content \<Rightarrow> string \<Rightarrow> bool" where
  "srv_isValidContent env content url =
     (if content = Str [] then False
      else (let type = srv_getFileType env url None
            in if type = ''image'' \<or> type = ''font''
               then is_buffer content
                    \<or> (case content of Str s \<Rightarrow> length s > 0 | Buf b \<Rightarrow> False)
               else (case content of
                       Str s \<Rightarrow>
                         (length (trim s) > 0 \<and> \<not> includes_str s ''<!DOCTYPE html>'')
                         \<or> includes_str url ''.html''
                     | Buf b \<Rightarrow> is_buffer content)))"

record srv_file =
  s_id :: string
  s_name :: string
  s_path :: string
  s_type :: string
  s_size :: nat
  s_content :: srv_content
  s_mimeType :: mime_value

record srv_extraction =
  e_id :: string
  e_url :: string
  e_status :: status
  e_files :: "srv_file list"
  e_totalSize :: nat
  e_totalFiles :: nat
  e_extractedAt :: string
  e_error :: "string option"

text \<open>\<open>extraction.files.push(file)\<close>\<close>

definition srv_push :: "srv_extraction \<Rightarrow> srv_file \<Rightarrow> srv_extraction" where
  "srv_push extraction file = extraction\<lparr>e_files := e_files extraction @ [file]\<rparr>"

text \<open>The asset set of this server holds strings and \<open>null\<close>.\<close>

definition srv_add_ref ::
  "env \<Rightarrow> string \<Rightarrow> string option list \<Rightarrow> string option \<Rightarrow> string option list" where
  "srv_add_ref env url as ref =
     (case ref of
        None \<Rightarrow> as
      | Some r \<Rightarrow> if r = [] then as else set_add as (srv_resolveUrl env url r))"

definition srv_add_link ::
  "env \<Rightarrow> string \<Rightarrow> string option list \<Rightarrow> element \<Rightarrow> string option list" where
  "srv_add_link env url as el =
     (case attr el ''href'' of
        None \<Rightarrow> as
      | Some h \<Rightarrow>
          if h \<noteq> [] \<and> link_wanted h (attr el ''rel'')
          then set_add as (srv_resolveUrl env url h) else as)"

definition srv_scan_assets ::
  "env \<Rightarrow> string \<Rightarrow> (selector \<Rightarrow> element list) \<Rightarrow> string option list" where
  "srv_scan_assets env url doc =
     (let a1 = foldl (\<lambda>as el. srv_add_ref env url as (attr el ''href'')) []
                     (doc SelStylesheetLink);
          a2 = foldl (\<lambda>as el. srv_add_ref env url as (attr el ''src'')) a1 (doc SelScriptSrc);
          a3 = foldl (\<lambda>as el. srv_add_ref env url as (attr el ''src'')) a2 (doc SelImgSrc)
      in foldl (srv_add_link env url) a3 (doc SelLinkHref))"

definition srv_inline_script_file :: "env \<Rightarrow> nat \<Rightarrow> string \<Rightarrow> srv_file" where
  "srv_inline_script_file env i scriptContent =
     (let fileName = ''inline-script-'' @ take 8 (randomUUID env (DrawInlineScriptName i)) @ ''.js''
      in \<lparr>s_id = randomUUID env (DrawInlineScriptId i), s_name = fileName,
          s_path = ''js/'' @ fileName, s_type = ''js'', s_size = byteLength scriptContent,
          s_content = Str scriptContent, s_mimeType = MimeString ''application/javascript''\<rparr>)"

definition srv_inline_script_step ::
  "env \<Rightarrow> srv_extraction \<Rightarrow> nat \<times> element \<Rightarrow> srv_extraction" where
  "srv_inline_script_step env extraction ie =
     (case html (snd ie) of
        None \<Rightarrow> extraction
      | Some scriptContent \<Rightarrow>
          if scriptContent \<noteq> [] \<and> trim scriptContent \<noteq> []
          then srv_push extraction (srv_inline_script_file env (fst ie) scriptContent)
          else extraction)"

definition srv_inline_style_file :: "env \<Rightarrow> nat \<Rightarrow> string \<Rightarrow> srv_file" where
  "srv_inline_style_file env i styleContent =
     (let fileName = ''inline-style-'' @ take 8 (randomUUID env (DrawInlineStyleName i)) @ ''.css''
      in \<lparr>s_id = randomUUID env (DrawInlineStyleId i), s_name = fileName,
          s_path = ''css/'' @ fileName, s_type = ''css'', s_size = byteLength styleContent,
          s_content = Str styleContent, s_mimeType = MimeString ''text/css''\<rparr>)"

definition srv_inline_style_step ::
  "env \<Rightarrow> srv_extraction \<Rightarrow> nat \<times> element \<Rightarrow> srv_extraction" where
  "srv_inline_style_step env extraction ie =
     (case html (snd ie) of
        None \<Rightarrow> extraction
      | Some styleContent \<Rightarrow>
          if styleContent \<noteq> [] \<and> trim styleContent \<noteq> []
          then srv_push extraction (srv_inline_style_file env (fst ie) styleContent)
          else extraction)"

definition srv_source_file :: "env \<Rightarrow> string \<Rightarrow> srv_file" where
  "srv_source_file env content =
     \<lparr>s_id = randomUUID env DrawSourceId, s_name = ''index.html'', s_path = ''index.html'',
      s_type = ''html'', s_size = byteLength content, s_content = Str content,
      s_mimeType = MimeString ''text/html''\<rparr>"

definition srv_source_file_of :: "env \<Rightarrow> page_data \<Rightarrow> js_error + srv_file" where
  "srv_source_file_of env content =
     (case content of
        PageText s \<Rightarrow> Inr (srv_source_file env s)
      | PageJson j \<Rightarrow> Inl (JsError (byteLength_message env j)))"

text \<open>
  The record once the page is scanned, before the first asset is requested, and what was
  thrown on the way, if anything: building the source file throws for a body that is not
  a string, and the files pushed before stay in the record.
\<close>

definition srv_scan_files ::
  "env \<Rightarrow> (selector \<Rightarrow> element list) \<Rightarrow> page_data \<Rightarrow> bool \<Rightarrow> srv_extraction
     \<Rightarrow> srv_extraction \<times> js_error option" where
  "srv_scan_files env doc content includeSourcePage extraction =
     (let e1 = foldl (srv_inline_script_step env) extraction (indexed (doc SelScriptNoSrc));
          e2 = foldl (srv_inline_style_step env) e1 (indexed (doc SelStyle))
      in if includeSourcePage
         then (case srv_source_file_of env content of
                 Inl error \<Rightarrow> (e2, Some error)
               | Inr sourceFile \<Rightarrow> (srv_push e2 sourceFile, None))
         else (e2, None))"

text \<open>
  The file of one asset; \<open>None\<close> when the request or \<open>new URL\<close> throws (caught and logged)
  or the content is not valid. The size is \<open>assetContent.length || Buffer.byteLength(..)\<close>
  of a \<open>Buffer\<close>: its length, also when that is 0.
\<close>

definition srv_asset_file :: "env \<Rightarrow> string \<Rightarrow> srv_file option" where
  "srv_asset_file env assetUrl =
     (case get_buffer env assetUrl of
        Inl e \<Rightarrow> None
      | Inr assetResponse \<Rightarrow>
          (let assetContent = Buf (data assetResponse);
               contentType = or_else (header assetResponse ''content-type'') []
           in if srv_isValidContent env assetContent assetUrl
              then (let assetType = srv_getFileType env assetUrl (Some contentType)
                    in case url_parse env assetUrl None of
                         None \<Rightarrow> None
                       | Some u \<Rightarrow>
                           (let fileName =
                                  or_else (pop (split CHR ''/'' (pathname u)))
                                    (''asset-''
                                     @ take 8 (randomUUID env (DrawAssetName assetUrl)))
                            in Some \<lparr>s_id = randomUUID env (DrawAssetId assetUrl),
                                 s_name = fileName,
                                 s_path = srv_folder assetType @ ''/'' @ fileName,
                                 s_type = assetType,
                                 s_size = length (data assetResponse),
                                 s_content = assetContent,
                                 s_mimeType = srv_getMimeType env assetUrl assetType\<rparr>))
              else None))"

definition srv_asset_step :: "env \<Rightarrow> srv_extraction \<Rightarrow> string \<Rightarrow> srv_extraction" where
  "srv_asset_step env extraction assetUrl =
     (case srv_asset_file env assetUrl of
        None \<Rightarrow> extraction
      | Some file \<Rightarrow> srv_push extraction file)"

definition srv_validAssets :: "string option list \<Rightarrow> string list" where
  "srv_validAssets as =
     List.map_filter (\<lambda>asset. case asset of
                        None \<Rightarrow> None
                      | Some a \<Rightarrow> if a \<noteq> [] \<and> \<not> startsWith a ''data:'' then Some a else None) as"

record srv_state =
  srv_extractions :: "string \<rightharpoonup> srv_extraction"
  srv_requests :: "request list"

text \<open>The \<open>catch\<close> of its \<open>extractWebsiteFiles\<close>.\<close>

definition srv_fail :: "srv_extraction \<Rightarrow> js_error \<Rightarrow> srv_extraction" where
  "srv_fail extraction error =
     extraction\<lparr>e_status := Failed, e_error := Some (error_message error)\<rparr>"

definition srv_extractWebsiteFiles ::
  "env \<Rightarrow> srv_state \<Rightarrow> string \<Rightarrow> string \<Rightarrow> bool \<Rightarrow> bool \<Rightarrow> srv_state" where
  "srv_extractWebsiteFiles env st extractionId url includePayloads includeSourcePage =
     (case srv_extractions st extractionId of
        None \<Rightarrow> st
      | Some extraction0 \<Rightarrow>
          (let extraction = extraction0\<lparr>e_status := Processing\<rparr>;
               failed = (\<lambda>e error.
                 \<lparr>srv_extractions = (srv_extractions st)(extractionId \<mapsto> srv_fail e error),
                  srv_requests = srv_requests st @ [GetPage url]\<rparr>)
           in case get_page env url of
                Inl error \<Rightarrow> failed extraction error
              | Inr mainResponse \<Rightarrow>
                  (let content = data mainResponse
                   in case load_page env content of
                        Inl error \<Rightarrow> failed extraction error
                      | Inr doc \<Rightarrow>
                          (let validAssets = srv_validAssets (srv_scan_assets env url doc)
                           in case srv_scan_files env doc content includeSourcePage
                                     extraction of
                                (e1, Some error) \<Rightarrow> failed e1 error
                              | (e1, None) \<Rightarrow>
                                  (let e2 = (if includePayloads
                                             then foldl (srv_asset_step env) e1 validAssets
                                             else e1)
                                   in \<lparr>srv_extractions = (srv_extractions st)(extractionId \<mapsto>
                                          e2\<lparr>e_status := Completed,
                                             e_totalFiles := length (e_files e2),
                                             e_totalSize :=
                                               foldl (\<lambda>total file. total + s_size file) 0
                                                     (e_files e2)\<rparr>),
                                       srv_requests = srv_requests st @ [GetPage url]
                                          @ (if includePayloads
                                             then map GetAsset validAssets else [])\<rparr>)))))"

text \<open>Its \<open>POST /api/extract\<close> handler: a missing URL is refused, else the record is made.\<close>

definition srv_startExtraction ::
  "env \<Rightarrow> srv_state \<Rightarrow> string \<Rightarrow> bool \<Rightarrow> bool \<Rightarrow> srv_state" where
  "srv_startExtraction env st url includePayloads includeSourcePage =
     (if url = [] then st
      else (let extraction =
                  \<lparr>e_id = randomUUID env DrawExtractionId, e_url = url, e_status = Pending,
                   e_files = [], e_totalSize = 0, e_totalFiles = 0,
                   e_extractedAt = now env, e_error = None\<rparr>
            in srv_extractWebsiteFiles env
                 (st\<lparr>srv_extractions := (srv_extractions st)(e_id extraction \<mapsto> extraction)\<rparr>)
                 (e_id extraction) url includePayloads includeSourcePage))"


section \<open>The files of a run, stage by stage\<close>

text \<open>
  The files each stage appends and the asset set the scan leaves, written as functions of
  the page alone. The lemmas below show that the pipeline computes exactly these.
\<close>

definition totals_ok :: "ExtractionResult \<Rightarrow> bool" where
  "totals_ok r =
     (x_totalFiles r = length (x_files r) \<and> x_totalSize r = sum_list (map f_size (x_files r)))"

definition with_files :: "ExtractionResult \<Rightarrow> ExtractedFile list \<Rightarrow> ExtractionResult" where
  "with_files r fs =
     r\<lparr>x_files := x_files r @ fs, x_totalFiles := length (x_files r @ fs),
       x_totalSize := sum_list (map f_size (x_files r @ fs))\<rparr>"

definition script_imports :: "env \<Rightarrow> string \<Rightarrow> string list \<Rightarrow> element \<Rightarrow> string list" where
  "script_imports env url as el =
     (case html el of
        None \<Rightarrow> as
      | Some c \<Rightarrow>
          if c \<noteq> [] \<and> trim c \<noteq> []
          then foldl (add_dynamic_import env url) as (match_all env ReDynamicImport c)
          else as)"

definition page_assets :: "env \<Rightarrow> string \<Rightarrow> (selector \<Rightarrow> element list) \<Rightarrow> string list" where
  "page_assets env url doc =
     (let a1 = foldl (\<lambda>as el. add_ref env url as (attr el ''href'')) [] (doc SelStylesheetLink);
          a2 = foldl (\<lambda>as el. add_ref env url as (attr el ''src'')) a1 (doc SelScriptSrc);
          a3 = foldl (\<lambda>as el. add_ref env url as (attr el ''src'')) a2 (doc SelImgSrc);
          a4 = foldl (add_link env url) a3 (doc SelLinkHref);
          a5 = foldl (script_imports env url) a4 (doc SelScriptNoSrc);
          a7 = foldl (\<lambda>as el. add_ref env url as (src_or_data el)) a5 (doc SelMedia)
      in foldl (add_style_urls env url) a7 (doc SelAll))"

definition inline_choice :: "(nat \<Rightarrow> string \<Rightarrow> 'f) \<Rightarrow> nat \<times> element \<Rightarrow> 'f option" where
  "inline_choice mk ie =
     (case html (snd ie) of
        None \<Rightarrow> None
      | Some c \<Rightarrow> if c \<noteq> [] \<and> trim c \<noteq> [] then Some (mk (fst ie) c) else None)"

definition inline_files :: "(nat \<Rightarrow> string \<Rightarrow> 'f) \<Rightarrow> element list \<Rightarrow> 'f list" where
  "inline_files mk els = List.map_filter (inline_choice mk) (indexed els)"

definition inline_seed :: "env \<Rightarrow> (selector \<Rightarrow> element list) \<Rightarrow> ExtractedFile list" where
  "inline_seed env doc =
     inline_files (inline_script_file env) (doc SelScriptNoSrc)
     @ inline_files (inline_style_file env) (doc SelStyle)"

text \<open>
  The source page step: no file when the page is not asked for, one file for a text body,
  a throw for any other body.
\<close>

definition source_files :: "env \<Rightarrow> page_data \<Rightarrow> bool \<Rightarrow> js_error + ExtractedFile list" where
  "source_files env content includeSourcePage =
     (if includeSourcePage
      then (case source_file_of env content of Inl e \<Rightarrow> Inl e | Inr f \<Rightarrow> Inr [f])
      else Inr [])"

text \<open>The files before the assets, for a page whose body is the string \<open>content\<close>.\<close>

definition seed_files :: "env \<Rightarrow> string \<Rightarrow> bool \<Rightarrow> ExtractedFile list" where
  "seed_files env content includeSourcePage =
     inline_seed env (cheerio env content)
     @ (if includeSourcePage then [source_file env content] else [])"

definition fetched_file :: "env \<Rightarrow> string \<Rightarrow> ExtractedFile option" where
  "fetched_file env assetUrl =
     (case prepare_asset env assetUrl of
        None \<Rightarrow> None
      | Some p \<Rightarrow> asset_file env p)"

definition settled :: "env \<Rightarrow> string list \<Rightarrow> string list" where
  "settled env assetArray = concat (map (settle_order env) (batches 0 assetArray))"

fun payload_files :: "env \<Rightarrow> nat \<Rightarrow> string list \<Rightarrow> ExtractedFile list" where
  "payload_files env payloadCount [] = []"
| "payload_files env payloadCount (apiUrl # rest) =
     (case get_json env apiUrl of
        Inl e \<Rightarrow> payload_files env payloadCount rest
      | Inr apiResponse \<Rightarrow>
          if is_json_payload apiResponse
          then payload_file env apiUrl (payloadCount + 1) apiResponse
               # payload_files env (payloadCount + 1) rest
          else payload_files env payloadCount rest)"

text \<open>The files after the source page step: of the assets, then of the probes.\<close>

definition later_files ::
  "env \<Rightarrow> string \<Rightarrow> (selector \<Rightarrow> element list) \<Rightarrow> bool \<Rightarrow> ExtractedFile list" where
  "later_files env url doc includePayloads =
     List.map_filter (fetched_file env) (settled env (page_assets env url doc))
     @ (if includePayloads
        then payload_files env 0 (take 5 (potentialApiUrls env url doc)) else [])"

text \<open>The requests after the one for the page: for the assets, then for the probes.\<close>

definition later_requests ::
  "env \<Rightarrow> string \<Rightarrow> (selector \<Rightarrow> element list) \<Rightarrow> bool \<Rightarrow> request list" where
  "later_requests env url doc includePayloads =
     map (\<lambda>p. GetAsset (p_url p)) (List.map_filter (prepare_asset env) (page_assets env url doc))
     @ (if includePayloads
        then map GetProbe (take 5 (potentialApiUrls env url doc)) else [])"

text \<open>The record \<open>createExtractionResult\<close> makes for a run.\<close>

definition fresh_result :: "env \<Rightarrow> string \<Rightarrow> ExtractionResult" where
  "fresh_result env url =
     \<lparr>x_id = randomUUID env DrawExtractionId, x_url = url, x_status = Pending, x_files = [],
      x_totalSize = 0, x_totalFiles = 0, x_extractedAt = now env, x_error = None\<rparr>"

text \<open>The same for the standalone server.\<close>

definition srv_inline_seed :: "env \<Rightarrow> (selector \<Rightarrow> element list) \<Rightarrow> srv_file list" where
  "srv_inline_seed env doc =
     inline_files (srv_inline_script_file env) (doc SelScriptNoSrc)
     @ inline_files (srv_inline_style_file env) (doc SelStyle)"

definition srv_source_files :: "env \<Rightarrow> page_data \<Rightarrow> bool \<Rightarrow> js_error + srv_file list" where
  "srv_source_files env content includeSourcePage =
     (if includeSourcePage
      then (case srv_source_file_of env content of Inl e \<Rightarrow> Inl e | Inr f \<Rightarrow> Inr [f])
      else Inr [])"

definition srv_seed_files :: "env \<Rightarrow> string \<Rightarrow> bool \<Rightarrow> srv_file list" where
  "srv_seed_files env content includeSourcePage =
     srv_inline_seed env (cheerio env content)
     @ (if includeSourcePage then [srv_source_file env content] else [])"

definition srv_later_files ::
  "env \<Rightarrow> string \<Rightarrow> (selector \<Rightarrow> element list) \<Rightarrow> bool \<Rightarrow> srv_file list" where
  "srv_later_files env url doc includePayloads =
     (if includePayloads
      then List.map_filter (srv_asset_file env) (srv_validAssets (srv_scan_assets env url doc))
      else [])"

definition srv_later_requests ::
  "env \<Rightarrow> string \<Rightarrow> (selector \<Rightarrow> element list) \<Rightarrow> bool \<Rightarrow> request list" where
  "srv_later_requests env url doc includePayloads =
     (if includePayloads
      then map GetAsset (srv_validAssets (srv_scan_assets env url doc)) else [])"

definition srv_fresh :: "env \<Rightarrow> string \<Rightarrow> srv_extraction" where
  "srv_fresh env url =
     \<lparr>e_id = randomUUID env DrawExtractionId, e_url = url, e_status = Pending, e_files = [],
      e_totalSize = 0, e_totalFiles = 0, e_extractedAt = now env, e_error = None\<rparr>"


section \<open>An example site\<close>

text \<open>
  The page \<open>https://ex.com/\<close> links a stylesheet, a script and an image and holds one
  inline style. The stylesheet imports a second one. The script answers with status 500.
  Every other URL fails; \<open>http://[\<close> does not parse. Two more roots: the body of
  \<open>https://api.example/status\<close> is JSON, which loads to a document with no elements, and
  the request for \<open>https://silent.example/\<close> is rejected with an \<open>Error\<close> whose message is
  empty.
\<close>

definition ex_urls :: "((string \<times> string option) \<times> parsed_url) list" where
  "ex_urls =
     [((''/a.css'', Some ''https://ex.com/''),
         \<lparr>href = ''https://ex.com/a.css'', pathname = ''/a.css''\<rparr>),
      ((''/a.js'', Some ''https://ex.com/''),
         \<lparr>href = ''https://ex.com/a.js'', pathname = ''/a.js''\<rparr>),
      ((''/logo.png'', Some ''https://ex.com/''),
         \<lparr>href = ''https://ex.com/logo.png'', pathname = ''/logo.png''\<rparr>),
      ((''b.css'', Some ''https://ex.com/a.css''),
         \<lparr>href = ''https://ex.com/b.css'', pathname = ''/b.css''\<rparr>),
      ((''https://ex.com/a.css'', None),
         \<lparr>href = ''https://ex.com/a.css'', pathname = ''/a.css''\<rparr>),
      ((''https://ex.com/a.js'', None),
         \<lparr>href = ''https://ex.com/a.js'', pathname = ''/a.js''\<rparr>),
      ((''https://ex.com/logo.png'', None),
         \<lparr>href = ''https://ex.com/logo.png'', pathname = ''/logo.png''\<rparr>),
      ((''https://ex.com/b.css'', None),
         \<lparr>href = ''https://ex.com/b.css'', pathname = ''/b.css''\<rparr>),
      ((''https://ex.com/font.woff2'', None),
         \<lparr>href = ''https://ex.com/font.woff2'', pathname = ''/font.woff2''\<rparr>)]"

definition ex_uuid :: string where
  "ex_uuid = ''0f8fad5b-d9cb-469f-a165-70867728950e''"

definition ex_dom :: "string \<Rightarrow> selector \<Rightarrow> element list" where
  "ex_dom content sel =
     (if content = ''<html>'' then
        (if sel = SelStylesheetLink \<or> sel = SelLinkHref
         then [\<lparr>attrs = [(''rel'', ''stylesheet''), (''href'', ''/a.css'')], html = Some []\<rparr>]
         else if sel = SelScriptSrc then [\<lparr>attrs = [(''src'', ''/a.js'')], html = Some []\<rparr>]
         else if sel = SelImgSrc then [\<lparr>attrs = [(''src'', ''/logo.png'')], html = Some []\<rparr>]
         else if sel = SelStyle then [\<lparr>attrs = [], html = Some ''color:red''\<rparr>]
         else [])
      else [])"

definition ex_png_response :: "byte list response" where
  "ex_png_response =
     \<lparr>data = [0x89, 0x50, 0x4E, 0x47], status_code = 200,
      headers = [(''content-type'', ''image/png'')]\<rparr>"

definition ex_css_response :: "text_data response" where
  "ex_css_response =
     \<lparr>data = TextString ''@import url(b.css);'', status_code = 200,
      headers = [(''content-type'', ''text/css'')]\<rparr>"

definition ex_type_error :: string where
  "ex_type_error = ''The '' @ [CHR 0x22] @ ''string'' @ [CHR 0x22]
     @ '' argument must be of type string or an instance of Buffer or ArrayBuffer.''
     @ '' Received an instance of Object''"

definition ex_json_response :: "page_data response" where
  "ex_json_response =
     \<lparr>data = PageJson (JObj [(''ok'', JBool True)]), status_code = 200,
      headers = [(''content-type'', ''application/json'')]\<rparr>"

definition ex_page_response :: "page_data response" where
  "ex_page_response =
     \<lparr>data = PageText ''<html>'', status_code = 200,
      headers = [(''content-type'', ''text/html'')]\<rparr>"

definition ex_env :: env where
  "ex_env =
     \<lparr>randomUUID = (\<lambda>d. ex_uuid),
      now = ''2026-01-01T00:00:00.000Z'',
      url_parse = (\<lambda>input base. map_of ex_urls (input, base)),
      cheerio = ex_dom,
      cheerio_json = (\<lambda>j. Inr (\<lambda>sel. [])),
      byteLength_message = (\<lambda>j. ex_type_error),
      match_all = (\<lambda>re s.
         if re = ReCssImport \<and> s = ''@import url(b.css);'' then [''@import url(b.css)'']
         else if re = ReUrl \<and> s = ''@import url(b.css);'' then [''url(b.css)'']
         else []),
      replace_groups = (\<lambda>re m.
         if m = ''@import url(b.css)'' \<or> m = ''url(b.css)'' then ''b.css'' else m),
      JSON_stringify = (\<lambda>j. ''null''),
      JSON_stringify_wrapped = (\<lambda>u s h j. ''{}''),
      get_page = (\<lambda>u.
         if u = ''https://ex.com/'' then Inr ex_page_response
         else if u = ''https://api.example/status'' then Inr ex_json_response
         else if u = ''https://silent.example/'' then Inl (JsError [])
         else Inl (JsError ''timeout of 15000ms exceeded'')),
      get_buffer = (\<lambda>u.
         if u = ''https://ex.com/logo.png'' then Inr ex_png_response
         else if u = ''https://ex.com/a.css''
         then Inr \<lparr>data = [0x70, 0x7B, 0x7D], status_code = 200,
                   headers = [(''content-type'', ''text/css'')]\<rparr>
         else Inl (JsError ''Request failed with status code 500'')),
      get_text = (\<lambda>u.
         if u = ''https://ex.com/a.css'' then Inr ex_css_response
         else if u = ''https://ex.com/b.css''
         then Inr \<lparr>data = TextString ''p{}'', status_code = 200,
                   headers = [(''content-type'', ''text/css'')]\<rparr>
         else Inl (JsError ''Request failed with status code 500'')),
      get_json = (\<lambda>u. Inl (JsError ''Request failed with status code 404'')),
      settle_order = rev\<rparr>"

definition ex_logo :: pending where
  "ex_logo =
     \<lparr>p_url = ''https://ex.com/logo.png'', p_fileName = ''logo.png'', p_fileType = Image,
      p_isBinary = True\<rparr>"

definition ex_logo_file :: ExtractedFile where
  "ex_logo_file =
     \<lparr>f_id = ex_uuid, f_name = ''logo.png'', f_path = ''images/logo.png'', f_type = Image,
      f_size = 4, f_content = ''data:image/png;base64,iVBORw=='', f_mimeType = ''image/png''\<rparr>"

definition ex_css :: pending where
  "ex_css =
     \<lparr>p_url = ''https://ex.com/a.css'', p_fileName = ''a.css'', p_fileType = Css,
      p_isBinary = False\<rparr>"

definition ex_css_file :: ExtractedFile where
  "ex_css_file =
     \<lparr>f_id = ex_uuid, f_name = ''a.css'', f_path = ''css/a.css'', f_type = Css, f_size = 19,
      f_content = ''@import url(b.css);'', f_mimeType = ''text/css''\<rparr>"

definition ex_api_response :: "json response" where
  "ex_api_response =
     \<lparr>data = JObj [(''ok'', JBool True)], status_code = 200,
      headers = [(''content-type'', ''application/json'')]\<rparr>"

definition ex_style_file :: ExtractedFile where
  "ex_style_file =
     \<lparr>f_id = ex_uuid, f_name = ''inline-style-0f8fad5b.css'',
      f_path = ''css/inline-style-0f8fad5b.css'', f_type = Css, f_size = 9,
      f_content = ''color:red'', f_mimeType = ''text/css''\<rparr>"

definition ex_index_file :: ExtractedFile where
  "ex_index_file =
     \<lparr>f_id = ex_uuid, f_name = ''index.html'', f_path = ''index.html'', f_type = Html,
      f_size = 6, f_content = ''<html>'', f_mimeType = ''text/html''\<rparr>"

text \<open>The record a run on the example site leaves, with and without the source page.\<close>

definition ex_completed :: "bool \<Rightarrow> ExtractionResult" where
  "ex_completed includeSourcePage =
     \<lparr>x_id = ex_uuid, x_url = ''https://ex.com/'', x_status = Completed,
      x_files = [ex_style_file] @ (if includeSourcePage then [ex_index_file] else [])
                @ [ex_logo_file, ex_css_file],
      x_totalSize = (if includeSourcePage then 38 else 32),
      x_totalFiles = (if includeSourcePage then 4 else 3),
      x_extractedAt = ''2026-01-01T00:00:00.000Z'', x_error = None\<rparr>"

text \<open>The same site on the standalone server, which requests every asset as bytes.\<close>

definition ex_srv_style :: srv_file where
  "ex_srv_style =
     \<lparr>s_id = ex_uuid, s_name = ''inline-style-0f8fad5b.css'',
      s_path = ''css/inline-style-0f8fad5b.css'', s_type = ''css'', s_size = 9,
      s_content = Str ''color:red'', s_mimeType = MimeString ''text/css''\<rparr>"

definition ex_srv_index :: srv_file where
  "ex_srv_index =
     \<lparr>s_id = ex_uuid, s_name = ''index.html'', s_path = ''index.html'', s_type = ''html'',
      s_size = 6, s_content = Str ''<html>'', s_mimeType = MimeString ''text/html''\<rparr>"

definition ex_srv_css :: srv_file where
  "ex_srv_css =
     \<lparr>s_id = ex_uuid, s_name = ''a.css'', s_path = ''css/a.css'', s_type = ''css'',
      s_size = 3, s_content = Buf [0x70, 0x7B, 0x7D], s_mimeType = MimeString ''text/css''\<rparr>"

definition ex_srv_logo :: srv_file where
  "ex_srv_logo =
     \<lparr>s_id = ex_uuid, s_name = ''logo.png'', s_path = ''images/logo.png'',
      s_type = ''image'', s_size = 4, s_content = Buf [0x89, 0x50, 0x4E, 0x47],
      s_mimeType = MimeString ''image/png''\<rparr>"

definition ex_srv_completed :: "bool \<Rightarrow> srv_extraction" where
  "ex_srv_completed includeSourcePage =
     \<lparr>e_id = ex_uuid, e_url = ''https://ex.com/'', e_status = Completed,
      e_files = [ex_srv_style] @ (if includeSourcePage then [ex_srv_index] else [])
                @ [ex_srv_css, ex_srv_logo],
      e_totalSize = (if includeSourcePage then 22 else 16),
      e_totalFiles = (if includeSourcePage then 4 else 3),
      e_extractedAt = ''2026-01-01T00:00:00.000Z'', e_error = None\<rparr>"

definition ex_srv_start :: srv_state where
  "ex_srv_start = \<lparr>srv_extractions = Map.empty, srv_requests = []\<rparr>"

definition ex_js :: pending where
  "ex_js =
     \<lparr>p_url = ''https://ex.com/a.js'', p_fileName = ''a.js'', p_fileType = Js,
      p_isBinary = False\<rparr>"

text \<open>The records the runs on the two other roots leave.\<close>

definition ex_json_failed :: ExtractionResult where
  "ex_json_failed =
     \<lparr>x_id = ex_uuid, x_url = ''https://api.example/status'', x_status = Failed, x_files = [],
      x_totalSize = 0, x_totalFiles = 0, x_extractedAt = ''2026-01-01T00:00:00.000Z'',
      x_error = Some ex_type_error\<rparr>"

definition ex_silent_failed :: ExtractionResult where
  "ex_silent_failed =
     \<lparr>x_id = ex_uuid, x_url = ''https://silent.example/'', x_status = Failed, x_files = [],
      x_totalSize = 0, x_totalFiles = 0, x_extractedAt = ''2026-01-01T00:00:00.000Z'',
      x_error = Some []\<rparr>"

definition ex_result :: ExtractionResult where
  "ex_result =
     \<lparr>x_id = ''e1'', x_url = ''https://ex.com/'', x_status = Pending, x_files = [],
      x_totalSize = 0, x_totalFiles = 0, x_extractedAt = ''2026-01-01T00:00:00.000Z'',
      x_error = None\<rparr>"


section \<open>Base64 decodes what it encodes\<close>

lemma b64_table:
  "\<forall>n \<in> set [0..<64]. b64_index (b64_char n) = Some n \<and> b64_char n \<noteq> CHR ''=''"
  by code_simp

lemma b64_index_char: "n < 64 \<Longrightarrow> b64_index (b64_char n) = Some n"
  using b64_table by simp

lemma b64_char_not_pad: "n < 64 \<Longrightarrow> b64_char n \<noteq> CHR ''=''"
  using b64_table by simp

lemma byte_bound: "unat (a :: byte) < 256"
  using unsigned_less [of a, where ?'a = nat] by simp

lemma div16_div16: "y < 256 \<Longrightarrow> y div 16 div 16 = (0::nat)"
  by (simp add: div_mult2_eq [symmetric])

lemma div64_div4: "z < 256 \<Longrightarrow> z div 64 div 4 = (0::nat)"
  by (simp add: div_mult2_eq [symmetric])

lemma sextets_byte1: "y < 256 \<Longrightarrow> x div 4 * 4 + (x mod 4 * 16 + y div 16) div 16 = (x::nat)"
  by (simp add: div16_div16)

lemma div16_mod16: "y < 256 \<Longrightarrow> y div 16 mod 16 = (y div 16 :: nat)"
  by (rule mod_less) (simp add: less_mult_imp_div_less)

lemma div64_mod4: "z < 256 \<Longrightarrow> z div 64 mod 4 = (z div 64 :: nat)"
  by (rule mod_less) (simp add: less_mult_imp_div_less)

lemma sextets_byte2:
  "y < 256 \<Longrightarrow> z < 256 \<Longrightarrow>
   (x mod 4 * 16 + y div 16) mod 16 * 16 + (y mod 16 * 4 + z div 64) div 4 = (y::nat)"
  by (simp add: div64_div4 div16_mod16)

lemma sextets_byte3: "z < 256 \<Longrightarrow> (y mod 16 * 4 + z div 64) mod 4 * 64 + z mod 64 = (z::nat)"
  by (simp add: div64_mod4)

lemma sextet_bounds:
  "x < 256 \<Longrightarrow> x div 4 < (64::nat)"
  "y < 256 \<Longrightarrow> x mod 4 * 16 + y div 16 < (64::nat)"
  "z < 256 \<Longrightarrow> y mod 16 * 4 + z div 64 < (64::nat)"
  "z mod 64 < (64::nat)"
  "x mod 4 * 16 < (64::nat)"
  "y mod 16 * 4 < (64::nat)"
proof -
  show "x < 256 \<Longrightarrow> x div 4 < (64::nat)" by (simp add: less_mult_imp_div_less)
  have a: "x mod 4 < 4" by simp
  have b: "y mod 16 < 16" by simp
  show "y < 256 \<Longrightarrow> x mod 4 * 16 + y div 16 < (64::nat)"
  proof -
    assume "y < 256"
    then have "y div 16 < 16" by (simp add: less_mult_imp_div_less)
    with a show ?thesis by linarith
  qed
  show "z < 256 \<Longrightarrow> y mod 16 * 4 + z div 64 < (64::nat)"
  proof -
    assume "z < 256"
    then have "z div 64 < 4" by (simp add: less_mult_imp_div_less)
    with b show ?thesis by linarith
  qed
  show "z mod 64 < (64::nat)" by simp
  from a show "x mod 4 * 16 < (64::nat)" by linarith
  from b show "y mod 16 * 4 < (64::nat)" by linarith
qed

lemma sextets_two_bytes: "y < 256 \<Longrightarrow> (x mod 4 * 16 + y div 16) mod 16 * 16 + y mod 16 * 4 div 4 = (y::nat)"
  by (simp add: div16_mod16)

lemma sextets_one_byte: "x div 4 * 4 + x mod 4 * 16 div 16 = (x::nat)"
  by simp

lemma base64_decode_base64: "base64_decode (base64 bs) = Some bs"
proof (induction bs rule: base64.induct)
  case (1 a b c rest)
  note bd = byte_bound [of a] byte_bound [of b] byte_bound [of c]
  show ?case
    using 1 bd
    by (simp add: b64_index_char b64_char_not_pad sextet_bounds
        sextets_byte1 sextets_byte2 sextets_byte3)
next
  case (2 a b)
  note bd = byte_bound [of a] byte_bound [of b]
  show ?case
    using bd
    by (simp add: b64_index_char b64_char_not_pad sextet_bounds sextets_byte1 sextets_two_bytes)
next
  case (3 a)
  note bd = byte_bound [of a]
  show ?case
    using bd by (simp add: b64_index_char b64_char_not_pad sextet_bounds sextets_one_byte)
next
  case 4
  show ?case by simp
qed

lemma length_base64: "length (base64 bs) = 4 * ((length bs + 2) div 3)"
proof (induction bs rule: base64.induct)
  case (1 a b c rest)
  have "(length (a # b # c # rest) + 2) div 3 = Suc ((length rest + 2) div 3)"
    by simp
  with 1 show ?case by simp
qed simp_all

lemma byteLength_ge_length: "length s \<le> byteLength s"
  by (induction s) (simp_all add: byteLength_def utf8_units_def)

lemma raw_shorter_than_base64: "(n::nat) < 13 + 4 * ((n + 2) div 3)"
proof -
  have "n + 2 = (n + 2) div 3 * 3 + (n + 2) mod 3" by simp
  moreover have "(n + 2) mod 3 < 3" by simp
  ultimately show ?thesis by linarith
qed

lemma byteLength_data_uri:
  "byteLength (''data:'' @ mime @ '';base64,'' @ b) = 13 + byteLength mime + byteLength b"
  by (simp add: byteLength_def utf8_units_def)

lemma data_uri_longer:
  "length d < byteLength (''data:'' @ mime @ '';base64,'' @ base64 d)"
proof -
  have "length (base64 d) \<le> byteLength (base64 d)"
    by (rule byteLength_ge_length)
  moreover have "length d < 13 + length (base64 d)"
    using raw_shorter_than_base64 [of "length d"] by (simp only: length_base64)
  ultimately show ?thesis
    unfolding byteLength_data_uri by linarith
qed


section \<open>The stages append files\<close>

lemma foldl_sizes: "foldl (\<lambda>sum f. sum + f_size f) a fs = a + sum_list (map f_size fs)"
  by (induction fs arbitrary: a) simp_all

lemma addFileToExtraction_present:
  "m i = Some r \<Longrightarrow> addFileToExtraction m i f = (m(i \<mapsto> with_files r [f]), Inr ())"
  by (simp add: addFileToExtraction_def with_files_def Let_def foldl_sizes)

lemma with_files_with_files: "with_files (with_files r fs) gs = with_files r (fs @ gs)"
  by (simp add: with_files_def)

lemma with_files_Nil: "totals_ok r \<Longrightarrow> with_files r [] = r"
  by (simp add: with_files_def totals_ok_def)

lemma totals_ok_with_files: "totals_ok (with_files r fs)"
  by (simp add: with_files_def totals_ok_def)

lemma with_files_fields:
  "x_files (with_files r fs) = x_files r @ fs"
  "x_status (with_files r fs) = x_status r"
  "x_error (with_files r fs) = x_error r"
  "x_url (with_files r fs) = x_url r"
  "x_id (with_files r fs) = x_id r"
  "x_extractedAt (with_files r fs) = x_extractedAt r"
  by (simp_all add: with_files_def)

lemma map_filter_append:
  "List.map_filter f (xs @ ys) = List.map_filter f xs @ List.map_filter f ys"
  by (simp add: List.map_filter_def)

lemma map_filter_concat:
  "List.map_filter f (concat xss) = concat (map (List.map_filter f) xss)"
  by (induction xss) (simp_all add: map_filter_append List.map_filter_simps)

lemma concat_map_option:
  "concat (map (\<lambda>x. case g x of None \<Rightarrow> [] | Some f \<Rightarrow> [f]) xs) = List.map_filter g xs"
  by (induction xs) (simp_all add: List.map_filter_simps split: option.splits)

text \<open>A loop whose every step appends files to the record of one extraction.\<close>

lemma appending_loop:
  assumes step: "\<And>st r x. store st i = Some r \<Longrightarrow> totals_ok r \<Longrightarrow>
            store (step st x) = (store st)(i \<mapsto> with_files r (g x))"
    and present: "store st i = Some r" and ok: "totals_ok r"
  shows "store (foldl step st xs) = (store st)(i \<mapsto> with_files r (concat (map g xs)))"
  using present ok
proof (induction xs arbitrary: st r)
  case Nil
  then show ?case by (simp add: with_files_Nil map_upd_triv)
next
  case (Cons x xs)
  have s: "store (step st x) = (store st)(i \<mapsto> with_files r (g x))"
    using step Cons.prems by simp
  then have "store (step st x) i = Some (with_files r (g x))" by simp
  from Cons.IH [OF this totals_ok_with_files]
  have "store (foldl step (step st x) xs)
          = (store st)(i \<mapsto> with_files r (g x @ concat (map g xs)))"
    by (simp only: s fun_upd_upd with_files_with_files)
  then show ?case by simp
qed

lemma map_snd_indexed: "map snd (indexed xs) = xs"
  by (simp add: indexed_def)

lemma inline_script_step_store:
  "store st i = Some r \<Longrightarrow> totals_ok r \<Longrightarrow>
   store (inline_script_step env i url st x)
     = (store st)(i \<mapsto> with_files r
          (case inline_choice (inline_script_file env) x of None \<Rightarrow> [] | Some f \<Rightarrow> [f]))"
  by (auto simp: inline_script_step_def inline_choice_def addFileToExtraction_present
      with_files_Nil map_upd_triv split: option.splits)

lemma inline_script_steps_assets:
  "assets (foldl (inline_script_step env i url) st xs)
     = foldl (script_imports env url) (assets st) (map snd xs)"
  by (induction xs arbitrary: st)
     (simp_all add: inline_script_step_def script_imports_def split: option.splits)

lemma inline_script_steps_requests:
  "requests (foldl (inline_script_step env i url) st xs) = requests st"
  by (induction xs arbitrary: st)
     (simp_all add: inline_script_step_def split: option.splits)

lemma inline_style_step_store:
  "store st i = Some r \<Longrightarrow> totals_ok r \<Longrightarrow>
   store (inline_style_step env i st x)
     = (store st)(i \<mapsto> with_files r
          (case inline_choice (inline_style_file env) x of None \<Rightarrow> [] | Some f \<Rightarrow> [f]))"
  by (auto simp: inline_style_step_def inline_choice_def addFileToExtraction_present
      with_files_Nil map_upd_triv split: option.splits)

lemma inline_style_steps_frame:
  "assets (foldl (inline_style_step env i) st xs) = assets st
   \<and> requests (foldl (inline_style_step env i) st xs) = requests st"
  by (induction xs arbitrary: st)
     (simp_all add: inline_style_step_def split: option.splits)

lemma scan_page_result:
  assumes present: "store st i = Some r" and ok: "totals_ok r"
  shows "store (scan_page env i url doc st)
           = (store st)(i \<mapsto> with_files r (inline_seed env doc))"
    and "assets (scan_page env i url doc st) = page_assets env url doc"
    and "requests (scan_page env i url doc st) = requests st"
proof -
  define a4 where "a4 =
    foldl (add_link env url)
      (foldl (\<lambda>as el. add_ref env url as (attr el ''src''))
         (foldl (\<lambda>as el. add_ref env url as (attr el ''src''))
            (foldl (\<lambda>as el. add_ref env url as (attr el ''href'')) []
               (doc SelStylesheetLink))
            (doc SelScriptSrc))
         (doc SelImgSrc))
      (doc SelLinkHref)"
  define st5 where "st5 = foldl (inline_script_step env i url) (st\<lparr>assets := a4\<rparr>)
                            (indexed (doc SelScriptNoSrc))"
  define st6 where "st6 = foldl (inline_style_step env i) st5
                            (indexed (doc SelStyle))"
  define fs1 where "fs1 = inline_files (inline_script_file env) (doc SelScriptNoSrc)"
  define fs2 where "fs2 = inline_files (inline_style_file env) (doc SelStyle)"
  have p0: "store (st\<lparr>assets := a4\<rparr>) i = Some r" using present by simp
  have s5: "store st5 = (store st)(i \<mapsto> with_files r fs1)"
    unfolding st5_def fs1_def inline_files_def
    using appending_loop [of i "inline_script_step env i url"
            "\<lambda>x. case inline_choice (inline_script_file env) x of None \<Rightarrow> [] | Some f \<Rightarrow> [f]",
            OF inline_script_step_store p0 ok]
    by (simp add: concat_map_option)
  then have p5: "store st5 i = Some (with_files r fs1)" by simp
  have s6: "store st6 = (store st)(i \<mapsto> with_files r (fs1 @ fs2))"
    unfolding st6_def fs2_def inline_files_def
    using appending_loop [of i "inline_style_step env i"
            "\<lambda>x. case inline_choice (inline_style_file env) x of None \<Rightarrow> [] | Some f \<Rightarrow> [f]",
            OF inline_style_step_store p5 totals_ok_with_files]
    by (simp add: concat_map_option s5 with_files_with_files)
  have a6: "assets st6 = foldl (script_imports env url) a4 (doc SelScriptNoSrc)"
    unfolding st6_def st5_def
    by (simp add: inline_style_steps_frame inline_script_steps_assets map_snd_indexed)
  have r6: "requests st6 = requests st"
    unfolding st6_def st5_def
    by (simp add: inline_style_steps_frame inline_script_steps_requests)
  have sp: "scan_page env i url doc st =
      st6\<lparr>assets := foldl (add_style_urls env url)
               (foldl (\<lambda>as el. add_ref env url as (src_or_data el)) (assets st6)
                      (doc SelMedia))
               (doc SelAll)\<rparr>"
    unfolding scan_page_def st6_def st5_def a4_def Let_def by (rule refl)
  show "store (scan_page env i url doc st)
           = (store st)(i \<mapsto> with_files r (inline_seed env doc))"
    unfolding sp using s6 by (simp add: fs1_def fs2_def inline_seed_def)
  show "assets (scan_page env i url doc st) = page_assets env url doc"
    unfolding sp by (simp add: a6 page_assets_def Let_def a4_def)
  show "requests (scan_page env i url doc st) = requests st"
    unfolding sp by (simp add: r6)
qed

lemma settle_asset_store:
  "store st i = Some r \<Longrightarrow> totals_ok r \<Longrightarrow>
   store (settle_asset env i st u)
     = (store st)(i \<mapsto> with_files r (case fetched_file env u of None \<Rightarrow> [] | Some f \<Rightarrow> [f]))"
  by (auto simp: settle_asset_def fetched_file_def addFileToExtraction_present
      with_files_Nil map_upd_triv split: option.splits)

lemma settle_asset_requests: "requests (settle_asset env i st u) = requests st"
  by (simp add: settle_asset_def split: option.splits prod.splits sum.splits)

lemma settle_assets_requests: "requests (foldl (settle_asset env i) st us) = requests st"
  by (induction us arbitrary: st) (simp_all add: settle_asset_requests)

lemma process_batch_store:
  assumes "store st i = Some r" and "totals_ok r"
  shows "store (process_batch env i st b)
     = (store st)(i \<mapsto> with_files r (List.map_filter (fetched_file env) (settle_order env b)))"
proof -
  have "store (st\<lparr>requests := requests st
          @ map (\<lambda>p. GetAsset (p_url p)) (List.map_filter (prepare_asset env) b)\<rparr>) i = Some r"
    using assms(1) by simp
  from appending_loop [of i "settle_asset env i"
         "\<lambda>u. case fetched_file env u of None \<Rightarrow> [] | Some f \<Rightarrow> [f]",
         OF settle_asset_store this assms(2)]
  show ?thesis
    by (simp add: process_batch_def concat_map_option)
qed

lemma process_batch_requests:
  "requests (process_batch env i st b)
     = requests st @ map (\<lambda>p. GetAsset (p_url p)) (List.map_filter (prepare_asset env) b)"
  by (simp add: process_batch_def settle_assets_requests)

lemma process_batches_store:
  assumes "store st i = Some r" and "totals_ok r"
  shows "store (foldl (process_batch env i) st bs)
     = (store st)(i \<mapsto> with_files r
          (List.map_filter (fetched_file env) (concat (map (settle_order env) bs))))"
  using appending_loop [of i "process_batch env i"
          "\<lambda>b. List.map_filter (fetched_file env) (settle_order env b)",
          OF process_batch_store assms]
  by (simp add: map_filter_concat comp_def)

lemma process_batches_requests:
  "requests (foldl (process_batch env i) st bs)
     = requests st
       @ map (\<lambda>p. GetAsset (p_url p)) (List.map_filter (prepare_asset env) (concat bs))"
  by (induction bs arbitrary: st) (simp_all add: process_batch_requests map_filter_append
      List.map_filter_simps)

lemma probe_steps:
  assumes "store st i = Some r" and "totals_ok r"
  shows "store (fst (foldl (probe_step env i) (st, n) us))
           = (store st)(i \<mapsto> with_files r (payload_files env n us))
         \<and> requests (fst (foldl (probe_step env i) (st, n) us)) = requests st @ map GetProbe us"
  using assms
proof (induction us arbitrary: st r n)
  case Nil
  then show ?case by (simp add: with_files_Nil map_upd_triv)
next
  case (Cons u us)
  show ?case
  proof (cases "get_json env u")
    case (Inl e)
    have step: "probe_step env i (st, n) u = (st\<lparr>requests := requests st @ [GetProbe u]\<rparr>, n)"
      by (simp add: probe_step_def Let_def Inl)
    have "store (st\<lparr>requests := requests st @ [GetProbe u]\<rparr>) i = Some r"
      using Cons.prems by simp
    from Cons.IH [OF this Cons.prems(2), of n]
    show ?thesis by (simp add: step Inl)
  next
    case (Inr apiResponse)
    show ?thesis
    proof (cases "is_json_payload apiResponse")
      case False
      have step: "probe_step env i (st, n) u = (st\<lparr>requests := requests st @ [GetProbe u]\<rparr>, n)"
        by (simp add: probe_step_def Let_def Inr False)
      have "store (st\<lparr>requests := requests st @ [GetProbe u]\<rparr>) i = Some r"
        using Cons.prems by simp
      from Cons.IH [OF this Cons.prems(2), of n]
      show ?thesis by (simp add: step Inr False)
    next
      case True
      let ?f = "payload_file env u (n + 1) apiResponse"
      let ?st = "st\<lparr>requests := requests st @ [GetProbe u], store := (store st)(i \<mapsto> with_files r [?f])\<rparr>"
      have step: "probe_step env i (st, n) u = (?st, n + 1)"
        using Cons.prems(1)
        by (simp add: probe_step_def Let_def Inr True addFileToExtraction_present)
      have "store ?st i = Some (with_files r [?f])" by simp
      from Cons.IH [OF this totals_ok_with_files, of "n + 1"]
      have ih: "store (fst (foldl (probe_step env i) (?st, n + 1) us))
                  = (store ?st)(i \<mapsto> with_files (with_files r [?f]) (payload_files env (n + 1) us))"
        and ihr: "requests (fst (foldl (probe_step env i) (?st, n + 1) us)) = requests ?st @ map GetProbe us"
        by blast+
      have e: "(store ?st)(i \<mapsto> X) = (store st)(i \<mapsto> X)" for X by simp
      have pf: "payload_files env n (u # us) = ?f # payload_files env (n + 1) us"
        by (simp add: Inr True)
      have "store (fst (foldl (probe_step env i) (st, n) (u # us)))
              = (store st)(i \<mapsto> with_files r (payload_files env n (u # us)))"
        unfolding foldl_Cons step ih e with_files_with_files pf by simp
      moreover have "requests (fst (foldl (probe_step env i) (st, n) (u # us)))
              = requests st @ map GetProbe (u # us)"
        unfolding foldl_Cons step ihr by simp
      ultimately show ?thesis by blast
    qed
  qed
qed

lemma probe_payloads_result:
  assumes "store st i = Some r" and "totals_ok r"
  shows "store (probe_payloads env i url doc st)
           = (store st)(i \<mapsto> with_files r
                (payload_files env 0 (take 5 (potentialApiUrls env url doc))))"
    and "requests (probe_payloads env i url doc st)
           = requests st @ map GetProbe (take 5 (potentialApiUrls env url doc))"
  using probe_steps [OF assms, of env 0 "take 5 (potentialApiUrls env url doc)"]
  by (simp_all add: probe_payloads_def)

lemma concat_batches: "concat (batches i xs) = drop i xs"
proof (induction i xs rule: batches.induct)
  case (1 i assetArray)
  show ?case
  proof (cases "i < length assetArray")
    case True
    have "concat (batches i assetArray)
            = take batchSize (drop i assetArray) @ concat (batches (i + batchSize) assetArray)"
      by (subst batches.simps) (simp add: True)
    also have "\<dots> = take batchSize (drop i assetArray) @ drop batchSize (drop i assetArray)"
      using 1 [OF True] by (simp add: add.commute)
    also have "\<dots> = drop i assetArray"
      by (rule append_take_drop_id)
    finally show ?thesis .
  next
    case False
    then show ?thesis by (subst batches.simps) simp
  qed
qed

lemma spread_status:
  "spread r (no_updates\<lparr>u_status := Some s\<rparr>) = r\<lparr>x_status := s\<rparr>"
  by (simp add: spread_def no_updates_def override_def)

lemma spread_failed:
  "spread r (no_updates\<lparr>u_status := Some s, u_error := Some e\<rparr>)
     = r\<lparr>x_status := s, x_error := e\<rparr>"
  by (simp add: spread_def no_updates_def override_def)

lemma updateExtractionResult_present:
  "m i = Some r \<Longrightarrow>
   updateExtractionResult m i updates = (m(i \<mapsto> spread r updates), Inr (spread r updates))"
  by (simp add: updateExtractionResult_def Let_def)

lemma totals_ok_status: "totals_ok (r\<lparr>x_status := s\<rparr>) = totals_ok r"
  by (simp add: totals_ok_def)

lemma source_step:
  assumes "source_files env content includeSourcePage = Inr sfs"
    and "m i = Some r" and "totals_ok r"
  shows "(if includeSourcePage
          then (case source_file_of env content of
                  Inl e \<Rightarrow> (m, Inl e)
                | Inr sourceFile \<Rightarrow> addFileToExtraction m i sourceFile)
          else (m, Inr ())) = (m(i \<mapsto> with_files r sfs), Inr ())"
proof (cases includeSourcePage)
  case True
  with assms(1) obtain f where "source_file_of env content = Inr f" and "sfs = [f]"
    by (auto simp: source_files_def split: sum.splits)
  with True assms(2) show ?thesis
    by (simp add: addFileToExtraction_present)
next
  case False
  with assms(1) have "sfs = []" by (simp add: source_files_def)
  moreover have "m(i \<mapsto> r) = m" using assms(2) by (rule map_upd_triv)
  ultimately show ?thesis
    using False by (simp add: with_files_Nil [OF assms(3)])
qed

lemma source_step_throws:
  assumes "source_files env content includeSourcePage = Inl e"
  shows "(if includeSourcePage
          then (case source_file_of env content of
                  Inl e \<Rightarrow> (m, Inl e)
                | Inr sourceFile \<Rightarrow> addFileToExtraction m i sourceFile)
          else (m, Inr ())) = (m, Inl e)"
  using assms by (auto simp: source_files_def split: if_splits sum.splits)

lemma extractWebsiteFiles_completed:
  assumes present: "store st0 i = Some r" and ok: "totals_ok r"
    and page: "get_page env url = Inr mainResponse"
    and load: "load_page env (data mainResponse) = Inr doc"
    and source: "source_files env (data mainResponse) includeSourcePage = Inr sfs"
  shows "\<exists>st. extractWebsiteFiles env st0 i url includePayloads includeSourcePage = (st, Inr ())
           \<and> store st = (store st0)(i \<mapsto>
                (with_files (r\<lparr>x_status := Processing\<rparr>)
                   (inline_seed env doc @ sfs @ later_files env url doc includePayloads))
                 \<lparr>x_status := Completed\<rparr>)
           \<and> requests st = requests st0 @ [GetPage url]
                @ later_requests env url doc includePayloads"
proof -
  define r1 where "r1 = r\<lparr>x_status := Processing\<rparr>"
  define st1 where
    "st1 = st0\<lparr>store := (store st0)(i \<mapsto> r1), requests := requests st0 @ [GetPage url]\<rparr>"
  define st2 where "st2 = scan_page env i url doc st1"
  define seed where "seed = inline_seed env doc @ sfs"
  define m3 where "m3 = (store st0)(i \<mapsto> with_files r1 seed)"
  define st3 where "st3 = st2\<lparr>store := m3\<rparr>"
  define st4 where "st4 = foldl (process_batch env i) st3 (batches 0 (assets st3))"
  define st5 where "st5 = (if includePayloads then probe_payloads env i url doc st4 else st4)"
  define fetched where
    "fetched = List.map_filter (fetched_file env) (settled env (page_assets env url doc))"
  define probed where "probed = (if includePayloads
        then payload_files env 0 (take 5 (potentialApiUrls env url doc)) else [])"
  have ok1: "totals_ok r1" using ok by (simp add: r1_def totals_ok_status)
  have u1: "updateExtractionResult (store st0) i (no_updates\<lparr>u_status := Some Processing\<rparr>)
              = ((store st0)(i \<mapsto> r1), Inr r1)"
    using present by (simp add: updateExtractionResult_present spread_status r1_def)
  have p1: "store st1 i = Some r1" by (simp add: st1_def)
  note scan = scan_page_result [OF p1 ok1, of env url doc, folded st2_def]
  have s2: "store st2 = (store st0)(i \<mapsto> with_files r1 (inline_seed env doc))"
    using scan(1) by (simp add: st1_def)
  then have p2: "store st2 i = Some (with_files r1 (inline_seed env doc))" by simp
  have src: "(if includeSourcePage
              then (case source_file_of env (data mainResponse) of
                      Inl e \<Rightarrow> (store st2, Inl e)
                    | Inr sourceFile \<Rightarrow> addFileToExtraction (store st2) i sourceFile)
              else (store st2, Inr ())) = (m3, Inr ())"
    using source_step [where m = "store st2" and i = i
            and r = "with_files r1 (inline_seed env doc)", OF source p2 totals_ok_with_files]
    by (simp add: s2 with_files_with_files m3_def seed_def)
  have p3: "store st3 i = Some (with_files r1 seed)" by (simp add: st3_def m3_def)
  have a3: "assets st3 = page_assets env url doc"
    using scan(2) by (simp add: st3_def)
  have r3: "requests st3 = requests st0 @ [GetPage url]"
    using scan(3) by (simp add: st3_def st1_def)
  have s4: "store st4 = (store st0)(i \<mapsto> with_files r1 (seed @ fetched))"
    unfolding st4_def a3
    using process_batches_store [OF p3 totals_ok_with_files, of env
            "batches 0 (page_assets env url doc)"]
    by (simp add: st3_def m3_def with_files_with_files fetched_def settled_def)
  have r4: "requests st4 = requests st0 @ [GetPage url]
              @ map (\<lambda>p. GetAsset (p_url p))
                  (List.map_filter (prepare_asset env) (page_assets env url doc))"
    unfolding st4_def a3 by (simp add: process_batches_requests concat_batches r3)
  have p4: "store st4 i = Some (with_files r1 (seed @ fetched))" by (simp add: s4)
  have s5: "store st5 = (store st0)(i \<mapsto> with_files r1 (seed @ fetched @ probed))"
  proof (cases includePayloads)
    case True
    then show ?thesis
      using probe_payloads_result(1) [OF p4 totals_ok_with_files, of env url doc]
      by (simp add: st5_def probed_def s4 with_files_with_files)
  next
    case False
    then show ?thesis by (simp add: st5_def probed_def s4)
  qed
  have r5: "requests st5 = requests st4
              @ (if includePayloads
                 then map GetProbe (take 5 (potentialApiUrls env url doc)) else [])"
    using probe_payloads_result(2) [OF p4 totals_ok_with_files, of env url doc]
    by (simp add: st5_def)
  have p5: "store st5 i = Some (with_files r1 (seed @ fetched @ probed))" by (simp add: s5)
  have u6: "updateExtractionResult (store st5) i (no_updates\<lparr>u_status := Some Completed\<rparr>)
              = ((store st0)(i \<mapsto> (with_files r1 (seed @ fetched @ probed))\<lparr>x_status := Completed\<rparr>),
                 Inr ((with_files r1 (seed @ fetched @ probed))\<lparr>x_status := Completed\<rparr>))"
    using p5 by (simp add: updateExtractionResult_present spread_status s5)
  note unf = st5_def st4_def st3_def st2_def st1_def
  have run: "extractWebsiteFiles env st0 i url includePayloads includeSourcePage
               = (st5\<lparr>store := (store st0)(i \<mapsto>
                      (with_files r1 (seed @ fetched @ probed))\<lparr>x_status := Completed\<rparr>)\<rparr>,
                  Inr ())"
    unfolding extractWebsiteFiles_def
    by (simp only: u1 prod.case sum.case Let_def page load src [unfolded unf]
        u6 [unfolded unf] unf)
  show ?thesis
    unfolding run
    by (simp add: r5 r4 later_files_def later_requests_def seed_def fetched_def probed_def
        r1_def)
qed

lemma extractWebsiteFiles_load_failed:
  assumes present: "store st0 i = Some r"
    and page: "get_page env url = Inr mainResponse"
    and load: "load_page env (data mainResponse) = Inl e"
  shows "extractWebsiteFiles env st0 i url includePayloads includeSourcePage
           = (st0\<lparr>store := (store st0)(i \<mapsto> r\<lparr>x_status := Processing\<rparr>),
                  requests := requests st0 @ [GetPage url]\<rparr>, Inl e)"
  using present
  by (simp add: extractWebsiteFiles_def updateExtractionResult_present spread_status page load)

lemma extractWebsiteFiles_source_failed:
  assumes present: "store st0 i = Some r" and ok: "totals_ok r"
    and page: "get_page env url = Inr mainResponse"
    and load: "load_page env (data mainResponse) = Inr doc"
    and source: "source_files env (data mainResponse) includeSourcePage = Inl e"
  shows "\<exists>st. extractWebsiteFiles env st0 i url includePayloads includeSourcePage = (st, Inl e)
           \<and> store st = (store st0)(i \<mapsto>
                with_files (r\<lparr>x_status := Processing\<rparr>) (inline_seed env doc))
           \<and> requests st = requests st0 @ [GetPage url]"
proof -
  define r1 where "r1 = r\<lparr>x_status := Processing\<rparr>"
  define st1 where
    "st1 = st0\<lparr>store := (store st0)(i \<mapsto> r1), requests := requests st0 @ [GetPage url]\<rparr>"
  define st2 where "st2 = scan_page env i url doc st1"
  have ok1: "totals_ok r1" using ok by (simp add: r1_def totals_ok_status)
  have u1: "updateExtractionResult (store st0) i (no_updates\<lparr>u_status := Some Processing\<rparr>)
              = ((store st0)(i \<mapsto> r1), Inr r1)"
    using present by (simp add: updateExtractionResult_present spread_status r1_def)
  have p1: "store st1 i = Some r1" by (simp add: st1_def)
  note scan = scan_page_result [OF p1 ok1, of env url doc, folded st2_def]
  have s2: "store st2 = (store st0)(i \<mapsto> with_files r1 (inline_seed env doc))"
    using scan(1) by (simp add: st1_def)
  have r2: "requests st2 = requests st0 @ [GetPage url]"
    using scan(3) by (simp add: st1_def)
  note src = source_step_throws [OF source, of "store st2" i]
  note unf = st2_def st1_def
  have run: "extractWebsiteFiles env st0 i url includePayloads includeSourcePage = (st2, Inl e)"
    unfolding extractWebsiteFiles_def
    by (simp only: u1 prod.case sum.case Let_def page load src [unfolded unf] unf)
  show ?thesis
    unfolding run by (simp add: s2 r2 r1_def)
qed

lemma createExtractionResult_fresh:
  "createExtractionResult m (randomUUID env DrawExtractionId) (now env) url
     = (m(randomUUID env DrawExtractionId \<mapsto> fresh_result env url), fresh_result env url)"
  by (simp add: createExtractionResult_def fresh_result_def Let_def)

lemma totals_ok_fresh: "totals_ok (fresh_result env url)"
  by (simp add: totals_ok_def fresh_result_def)

lemma x_id_fresh: "x_id (fresh_result env url) = randomUUID env DrawExtractionId"
  by (simp add: fresh_result_def)

lemma startExtraction_completed:
  assumes page: "get_page env url = Inr mainResponse"
    and load: "load_page env (data mainResponse) = Inr doc"
    and source: "source_files env (data mainResponse) includeSourcePage = Inr sfs"
  shows "store (startExtraction env m url includePayloads includeSourcePage)
           = m(randomUUID env DrawExtractionId \<mapsto>
               (with_files (fresh_result env url)
                  (inline_seed env doc @ sfs @ later_files env url doc includePayloads))
               \<lparr>x_status := Completed\<rparr>)"
    and "requests (startExtraction env m url includePayloads includeSourcePage)
           = [GetPage url] @ later_requests env url doc includePayloads"
proof -
  let ?i = "randomUUID env DrawExtractionId"
  let ?st0 = "\<lparr>store = m(?i \<mapsto> fresh_result env url), assets = [], requests = []\<rparr>"
  have "store ?st0 ?i = Some (fresh_result env url)" by simp
  from extractWebsiteFiles_completed [OF this totals_ok_fresh page load source,
         of includePayloads]
  obtain st where run: "extractWebsiteFiles env ?st0 ?i url includePayloads includeSourcePage
                          = (st, Inr ())"
    and s: "store st = (store ?st0)(?i \<mapsto>
              (with_files ((fresh_result env url)\<lparr>x_status := Processing\<rparr>)
                 (inline_seed env doc @ sfs @ later_files env url doc includePayloads))
              \<lparr>x_status := Completed\<rparr>)"
    and r: "requests st = requests ?st0 @ [GetPage url]
              @ later_requests env url doc includePayloads"
    by blast
  have start: "startExtraction env m url includePayloads includeSourcePage = st"
    by (simp add: startExtraction_def createExtractionResult_fresh x_id_fresh run)
  show "store (startExtraction env m url includePayloads includeSourcePage)
           = m(?i \<mapsto>
               (with_files (fresh_result env url)
                  (inline_seed env doc @ sfs @ later_files env url doc includePayloads))
               \<lparr>x_status := Completed\<rparr>)"
    unfolding start s by (simp add: with_files_def)
  show "requests (startExtraction env m url includePayloads includeSourcePage)
           = [GetPage url] @ later_requests env url doc includePayloads"
    unfolding start r by simp
qed

lemma startExtraction_failed:
  assumes page: "get_page env url = Inl e"
  shows "store (startExtraction env m url includePayloads includeSourcePage)
           = m(randomUUID env DrawExtractionId \<mapsto>
               (fresh_result env url)\<lparr>x_status := Failed, x_error := Some (error_message e)\<rparr>)"
    and "requests (startExtraction env m url includePayloads includeSourcePage) = [GetPage url]"
    and "assets (startExtraction env m url includePayloads includeSourcePage) = []"
proof -
  let ?i = "randomUUID env DrawExtractionId"
  let ?st0 = "\<lparr>store = m(?i \<mapsto> fresh_result env url), assets = [], requests = []\<rparr>"
  let ?st1 = "\<lparr>store = m(?i \<mapsto> (fresh_result env url)\<lparr>x_status := Processing\<rparr>),
               assets = [], requests = [GetPage url]\<rparr>"
  have run: "extractWebsiteFiles env ?st0 ?i url includePayloads includeSourcePage
               = (?st1, Inl e)"
    by (simp add: extractWebsiteFiles_def updateExtractionResult_present spread_status page)
  have start: "startExtraction env m url includePayloads includeSourcePage
                 = ?st1\<lparr>store := m(?i \<mapsto>
                     (fresh_result env url)\<lparr>x_status := Failed,
                                             x_error := Some (error_message e)\<rparr>)\<rparr>"
    by (simp add: startExtraction_def createExtractionResult_fresh x_id_fresh run
        updateExtractionResult_present spread_failed)
  show "store (startExtraction env m url includePayloads includeSourcePage)
           = m(?i \<mapsto>
               (fresh_result env url)\<lparr>x_status := Failed, x_error := Some (error_message e)\<rparr>)"
    unfolding start by simp
  show "requests (startExtraction env m url includePayloads includeSourcePage) = [GetPage url]"
    unfolding start by simp
  show "assets (startExtraction env m url includePayloads includeSourcePage) = []"
    unfolding start by simp
qed

lemma startExtraction_load_failed:
  assumes page: "get_page env url = Inr mainResponse"
    and load: "load_page env (data mainResponse) = Inl e"
  shows "store (startExtraction env m url includePayloads includeSourcePage)
           = m(randomUUID env DrawExtractionId \<mapsto>
               (fresh_result env url)\<lparr>x_status := Failed, x_error := Some (error_message e)\<rparr>)"
    and "requests (startExtraction env m url includePayloads includeSourcePage) = [GetPage url]"
proof -
  let ?i = "randomUUID env DrawExtractionId"
  let ?st0 = "\<lparr>store = m(?i \<mapsto> fresh_result env url), assets = [], requests = []\<rparr>"
  let ?st1 = "\<lparr>store = m(?i \<mapsto> (fresh_result env url)\<lparr>x_status := Processing\<rparr>),
               assets = [], requests = [GetPage url]\<rparr>"
  have "store ?st0 ?i = Some (fresh_result env url)" by simp
  from extractWebsiteFiles_load_failed [OF this page load, of includePayloads includeSourcePage]
  have run: "extractWebsiteFiles env ?st0 ?i url includePayloads includeSourcePage
               = (?st1, Inl e)"
    by simp
  have start: "startExtraction env m url includePayloads includeSourcePage
                 = ?st1\<lparr>store := m(?i \<mapsto>
                     (fresh_result env url)\<lparr>x_status := Failed,
                                             x_error := Some (error_message e)\<rparr>)\<rparr>"
    by (simp add: startExtraction_def createExtractionResult_fresh x_id_fresh run
        updateExtractionResult_present spread_failed)
  show "store (startExtraction env m url includePayloads includeSourcePage)
           = m(?i \<mapsto>
               (fresh_result env url)\<lparr>x_status := Failed, x_error := Some (error_message e)\<rparr>)"
    unfolding start by simp
  show "requests (startExtraction env m url includePayloads includeSourcePage) = [GetPage url]"
    unfolding start by simp
qed

lemma startExtraction_source_failed:
  assumes page: "get_page env url = Inr mainResponse"
    and load: "load_page env (data mainResponse) = Inr doc"
    and source: "source_files env (data mainResponse) includeSourcePage = Inl e"
  shows "store (startExtraction env m url includePayloads includeSourcePage)
           = m(randomUUID env DrawExtractionId \<mapsto>
               (with_files (fresh_result env url) (inline_seed env doc))
               \<lparr>x_status := Failed, x_error := Some (error_message e)\<rparr>)"
    and "requests (startExtraction env m url includePayloads includeSourcePage) = [GetPage url]"
proof -
  let ?i = "randomUUID env DrawExtractionId"
  let ?st0 = "\<lparr>store = m(?i \<mapsto> fresh_result env url), assets = [], requests = []\<rparr>"
  let ?r2 = "with_files ((fresh_result env url)\<lparr>x_status := Processing\<rparr>) (inline_seed env doc)"
  have "store ?st0 ?i = Some (fresh_result env url)" by simp
  from extractWebsiteFiles_source_failed [OF this totals_ok_fresh page load source,
         of includePayloads]
  obtain st where run: "extractWebsiteFiles env ?st0 ?i url includePayloads includeSourcePage
                          = (st, Inl e)"
    and s: "store st = (store ?st0)(?i \<mapsto> ?r2)"
    and r: "requests st = requests ?st0 @ [GetPage url]"
    by blast
  have p: "store st ?i = Some ?r2" by (simp add: s)
  have start: "startExtraction env m url includePayloads includeSourcePage
                 = st\<lparr>store := (store st)(?i \<mapsto>
                     ?r2\<lparr>x_status := Failed, x_error := Some (error_message e)\<rparr>)\<rparr>"
    using p
    by (simp add: startExtraction_def createExtractionResult_fresh x_id_fresh run
        updateExtractionResult_present spread_failed)
  show "store (startExtraction env m url includePayloads includeSourcePage)
           = m(?i \<mapsto>
               (with_files (fresh_result env url) (inline_seed env doc))
               \<lparr>x_status := Failed, x_error := Some (error_message e)\<rparr>)"
    unfolding start by (simp add: s with_files_def)
  show "requests (startExtraction env m url includePayloads includeSourcePage) = [GetPage url]"
    unfolding start by (simp add: r)
qed

lemma srv_pushing_loop:
  assumes "\<And>e x. step e x = (case g x of None \<Rightarrow> e | Some f \<Rightarrow> srv_push e f)"
  shows "foldl step e xs = e\<lparr>e_files := e_files e @ List.map_filter g xs\<rparr>"
proof (induction xs arbitrary: e)
  case Nil
  show ?case by (simp add: List.map_filter_simps)
next
  case (Cons x xs)
  have "foldl step e (x # xs) = foldl step (step e x) xs" by simp
  also have "\<dots> = (step e x)\<lparr>e_files := e_files (step e x) @ List.map_filter g xs\<rparr>"
    by (rule Cons)
  also have "\<dots> = e\<lparr>e_files := e_files e @ List.map_filter g (x # xs)\<rparr>"
    by (cases "g x") (simp_all add: assms [of e x] List.map_filter_simps srv_push_def)
  finally show ?case .
qed

lemma srv_inline_steps:
  "foldl (srv_inline_style_step env)
     (foldl (srv_inline_script_step env) e (indexed (doc SelScriptNoSrc)))
     (indexed (doc SelStyle))
   = e\<lparr>e_files := e_files e @ srv_inline_seed env doc\<rparr>"
proof -
  have a: "foldl (srv_inline_script_step env) e xs
             = e\<lparr>e_files := e_files e @ List.map_filter (inline_choice (srv_inline_script_file env)) xs\<rparr>"
    for e xs
    by (rule srv_pushing_loop)
       (simp add: srv_inline_script_step_def inline_choice_def split: option.splits)
  have b: "foldl (srv_inline_style_step env) e xs
             = e\<lparr>e_files := e_files e @ List.map_filter (inline_choice (srv_inline_style_file env)) xs\<rparr>"
    for e xs
    by (rule srv_pushing_loop)
       (simp add: srv_inline_style_step_def inline_choice_def split: option.splits)
  show ?thesis
    by (simp add: a b srv_inline_seed_def inline_files_def)
qed

lemma srv_scan_files_result:
  assumes "srv_source_files env content includeSourcePage = Inr sfs"
  shows "srv_scan_files env doc content includeSourcePage e
           = (e\<lparr>e_files := e_files e @ srv_inline_seed env doc @ sfs\<rparr>, None)"
  using assms
  by (auto simp: srv_scan_files_def Let_def srv_inline_steps srv_source_files_def srv_push_def
      split: if_splits sum.splits)

lemma srv_scan_files_throws:
  assumes "srv_source_files env content includeSourcePage = Inl error"
  shows "srv_scan_files env doc content includeSourcePage e
           = (e\<lparr>e_files := e_files e @ srv_inline_seed env doc\<rparr>, Some error)"
  using assms
  by (auto simp: srv_scan_files_def Let_def srv_inline_steps srv_source_files_def
      split: if_splits sum.splits)

lemma srv_asset_steps:
  "foldl (srv_asset_step env) e us = e\<lparr>e_files := e_files e @ List.map_filter (srv_asset_file env) us\<rparr>"
  by (rule srv_pushing_loop) (simp add: srv_asset_step_def)

lemma foldl_srv_sizes:
  "foldl (\<lambda>total file. total + s_size file) a fs = a + sum_list (map s_size fs)"
  by (induction fs arbitrary: a) simp_all

lemma srv_startExtraction_completed:
  assumes "url \<noteq> []" and "get_page env url = Inr mainResponse"
    and "load_page env (data mainResponse) = Inr doc"
    and "srv_source_files env (data mainResponse) includeSourcePage = Inr sfs"
  shows "srv_extractions (srv_startExtraction env st url includePayloads includeSourcePage)
           = (srv_extractions st)(randomUUID env DrawExtractionId \<mapsto>
               (srv_fresh env url)
                 \<lparr>e_status := Completed,
                  e_files := srv_inline_seed env doc @ sfs
                               @ srv_later_files env url doc includePayloads,
                  e_totalFiles := length (srv_inline_seed env doc @ sfs
                               @ srv_later_files env url doc includePayloads),
                  e_totalSize := sum_list (map s_size (srv_inline_seed env doc @ sfs
                               @ srv_later_files env url doc includePayloads))\<rparr>)"
    and "srv_requests (srv_startExtraction env st url includePayloads includeSourcePage)
           = srv_requests st @ [GetPage url] @ srv_later_requests env url doc includePayloads"
  using assms
  by (simp_all add: srv_startExtraction_def srv_extractWebsiteFiles_def Let_def
      srv_scan_files_result srv_asset_steps foldl_srv_sizes srv_later_files_def
      srv_later_requests_def srv_fresh_def)

lemma srv_startExtraction_failed:
  assumes "url \<noteq> []" and "get_page env url = Inl e"
  shows "srv_extractions (srv_startExtraction env st url includePayloads includeSourcePage)
           = (srv_extractions st)(randomUUID env DrawExtractionId \<mapsto>
               (srv_fresh env url)\<lparr>e_status := Failed, e_error := Some (error_message e)\<rparr>)"
    and "srv_requests (srv_startExtraction env st url includePayloads includeSourcePage)
           = srv_requests st @ [GetPage url]"
  using assms
  by (simp_all add: srv_startExtraction_def srv_extractWebsiteFiles_def Let_def srv_fresh_def
      srv_fail_def)

lemma srv_startExtraction_load_failed:
  assumes "url \<noteq> []" and "get_page env url = Inr mainResponse"
    and "load_page env (data mainResponse) = Inl e"
  shows "srv_extractions (srv_startExtraction env st url includePayloads includeSourcePage)
           = (srv_extractions st)(randomUUID env DrawExtractionId \<mapsto>
               (srv_fresh env url)\<lparr>e_status := Failed, e_error := Some (error_message e)\<rparr>)"
    and "srv_requests (srv_startExtraction env st url includePayloads includeSourcePage)
           = srv_requests st @ [GetPage url]"
  using assms
  by (simp_all add: srv_startExtraction_def srv_extractWebsiteFiles_def Let_def srv_fresh_def
      srv_fail_def)

lemma srv_startExtraction_source_failed:
  assumes "url \<noteq> []" and "get_page env url = Inr mainResponse"
    and "load_page env (data mainResponse) = Inr doc"
    and "srv_source_files env (data mainResponse) includeSourcePage = Inl e"
  shows "srv_extractions (srv_startExtraction env st url includePayloads includeSourcePage)
           = (srv_extractions st)(randomUUID env DrawExtractionId \<mapsto>
               (srv_fresh env url)\<lparr>e_status := Failed, e_files := srv_inline_seed env doc,
                                   e_error := Some (error_message e)\<rparr>)"
    and "srv_requests (srv_startExtraction env st url includePayloads includeSourcePage)
           = srv_requests st @ [GetPage url]"
  using assms
  by (simp_all add: srv_startExtraction_def srv_extractWebsiteFiles_def Let_def srv_fresh_def
      srv_fail_def srv_scan_files_throws)

section \<open>Properties of the store\<close>

text \<open>
  C10. For an id present in the store, \<open>updateExtractionResult\<close> returns and stores a record
  in which every field named in \<open>updates\<close> has the value given there and every other field
  has the value it had; the entries of all other ids stay as they were. For an id that is
  not present it throws \<open>Extraction not found\<close> and the store is the one before.
\<close>

theorem updateExtractionResult_frame:
  "(m i = Some existing \<longrightarrow>
      (\<exists>updated. updateExtractionResult m i updates = (m(i \<mapsto> updated), Inr updated)
         \<and> (case u_id updates of None \<Rightarrow> x_id updated = x_id existing
                                 | Some v \<Rightarrow> x_id updated = v)
         \<and> (case u_url updates of None \<Rightarrow> x_url updated = x_url existing
                                  | Some v \<Rightarrow> x_url updated = v)
         \<and> (case u_status updates of None \<Rightarrow> x_status updated = x_status existing
                                     | Some v \<Rightarrow> x_status updated = v)
         \<and> (case u_files updates of None \<Rightarrow> x_files updated = x_files existing
                                    | Some v \<Rightarrow> x_files updated = v)
         \<and> (case u_totalSize updates of None \<Rightarrow> x_totalSize updated = x_totalSize existing
                                        | Some v \<Rightarrow> x_totalSize updated = v)
         \<and> (case u_totalFiles updates of None \<Rightarrow> x_totalFiles updated = x_totalFiles existing
                                         | Some v \<Rightarrow> x_totalFiles updated = v)
         \<and> (case u_extractedAt updates of
               None \<Rightarrow> x_extractedAt updated = x_extractedAt existing
             | Some v \<Rightarrow> x_extractedAt updated = v)
         \<and> (case u_error updates of None \<Rightarrow> x_error updated = x_error existing
                                    | Some v \<Rightarrow> x_error updated = v)
         \<and> (\<forall>j. j \<noteq> i \<longrightarrow> fst (updateExtractionResult m i updates) j = m j)))
   \<and> (m i = None \<longrightarrow>
        updateExtractionResult m i updates = (m, Inl (JsError ''Extraction not found'')))"
  by (auto simp: updateExtractionResult_def spread_def override_def Let_def split: option.splits)

theorem updateExtractionResult_frame_witness:
  "(\<exists>updated.
      updateExtractionResult [''e1'' \<mapsto> ex_result] ''e1'' (no_updates\<lparr>u_status := Some Processing\<rparr>)
        = ([''e1'' \<mapsto> updated], Inr updated)
      \<and> x_status updated = Processing \<and> x_url updated = ''https://ex.com/''
      \<and> x_files updated = [] \<and> x_error updated = None)
   \<and> updateExtractionResult Map.empty ''e1'' (no_updates\<lparr>u_status := Some Processing\<rparr>)
        = (Map.empty, Inl (JsError ''Extraction not found''))"
  using updateExtractionResult_frame [of "[''e1'' \<mapsto> ex_result]" "''e1''" ex_result
          "no_updates\<lparr>u_status := Some Processing\<rparr>"]
        updateExtractionResult_frame [of Map.empty "''e1''" ex_result
          "no_updates\<lparr>u_status := Some Processing\<rparr>"]
  by (auto simp: no_updates_def ex_result_def)


section \<open>Stored files\<close>

text \<open>
  C8. A binary asset whose request succeeds is stored with the content
  \<open>data:<mimeType>;base64,<base64 of the response bytes>\<close>; decoding what follows the
  prefix gives the response bytes back. Its \<open>mimeType\<close> is the \<open>content-type\<close> the
  response declares and, when the response declares none, the type \<open>getMimeType\<close> gives
  for the file name, which is \<open>image/png\<close> for the extension \<open>png\<close>. A text asset whose
  response body is a string is stored with that string as its content.
\<close>

theorem binary_asset_data_uri:
  "(p_isBinary p \<and> get_buffer env (p_url p) = Inr response \<longrightarrow>
      (\<exists>file. asset_file env p = Some file
         \<and> f_content file = ''data:'' @ f_mimeType file @ '';base64,'' @ base64 (data response)
         \<and> base64_decode (drop (length (''data:'' @ f_mimeType file @ '';base64,''))
                                (f_content file)) = Some (data response)
         \<and> f_mimeType file =
             (case header response ''content-type'' of
                None \<Rightarrow> getMimeType (p_fileName p)
              | Some declared \<Rightarrow>
                  if declared = [] then getMimeType (p_fileName p) else declared)))
   \<and> (extension fileName = Some ''png'' \<longrightarrow> getMimeType fileName = ''image/png'')
   \<and> (\<not> p_isBinary p \<and> get_text env (p_url p) = Inr tresponse
        \<and> data tresponse = TextString s \<longrightarrow>
      (\<exists>file. asset_file env p = Some file \<and> f_content file = s))"
proof (intro conjI impI)
  assume "p_isBinary p \<and> get_buffer env (p_url p) = Inr response"
  then show "\<exists>file. asset_file env p = Some file
         \<and> f_content file = ''data:'' @ f_mimeType file @ '';base64,'' @ base64 (data response)
         \<and> base64_decode (drop (length (''data:'' @ f_mimeType file @ '';base64,''))
                                (f_content file)) = Some (data response)
         \<and> f_mimeType file =
             (case header response ''content-type'' of
                None \<Rightarrow> getMimeType (p_fileName p)
              | Some declared \<Rightarrow>
                  if declared = [] then getMimeType (p_fileName p) else declared)"
    by (simp add: asset_file_def Let_def base64_decode_base64 or_else_def)
next
  assume "extension fileName = Some ''png''"
  then show "getMimeType fileName = ''image/png''"
    by (simp add: getMimeType_def ext_in_def)
next
  assume "\<not> p_isBinary p \<and> get_text env (p_url p) = Inr tresponse
        \<and> data tresponse = TextString s"
  then show "\<exists>file. asset_file env p = Some file \<and> f_content file = s"
    by (simp add: asset_file_def Let_def)
qed

theorem binary_asset_data_uri_witness:
  "(\<exists>file. asset_file ex_env ex_logo = Some file
      \<and> f_content file = ''data:image/png;base64,'' @ base64 [0x89, 0x50, 0x4E, 0x47]
      \<and> base64_decode (drop 22 (f_content file)) = Some [0x89, 0x50, 0x4E, 0x47]
      \<and> f_mimeType file = ''image/png'')
   \<and> getMimeType ''logo.png'' = ''image/png''
   \<and> (\<exists>file. asset_file ex_env ex_css = Some file \<and> f_content file = ''@import url(b.css);'')"
proof -
  have h1: "p_isBinary ex_logo \<and> get_buffer ex_env (p_url ex_logo) = Inr ex_png_response"
    by (simp add: ex_logo_def ex_env_def)
  have h2: "extension ''logo.png'' = Some ''png''"
    by code_simp
  have h3: "\<not> p_isBinary ex_css \<and> get_text ex_env (p_url ex_css) = Inr ex_css_response
        \<and> data ex_css_response = TextString ''@import url(b.css);''"
    by (simp add: ex_css_def ex_env_def ex_css_response_def)
  have hd: "header ex_png_response ''content-type'' = Some ''image/png''"
    by (simp add: header_def ex_png_response_def)
  have dd: "data ex_png_response = [0x89, 0x50, 0x4E, 0x47]"
    by (simp add: ex_png_response_def)
  from binary_asset_data_uri [of ex_logo ex_env ex_png_response "''logo.png''"
         ex_css_response "''@import url(b.css);''"] h1 h2
  have a: "(\<exists>file. asset_file ex_env ex_logo = Some file
      \<and> f_content file = ''data:image/png;base64,'' @ base64 [0x89, 0x50, 0x4E, 0x47]
      \<and> base64_decode (drop 22 (f_content file)) = Some [0x89, 0x50, 0x4E, 0x47]
      \<and> f_mimeType file = ''image/png'')
     \<and> getMimeType ''logo.png'' = ''image/png''"
    by (auto simp: hd dd)
  from binary_asset_data_uri [of ex_css ex_env ex_png_response "''logo.png''"
         ex_css_response "''@import url(b.css);''"] h3
  have b: "\<exists>file. asset_file ex_env ex_css = Some file \<and> f_content file = ''@import url(b.css);''"
    by blast
  from a b show ?thesis by blast
qed

text \<open>
  C1, as the code has it. For the inline files, the source page and a text asset, \<open>size\<close> is the
  UTF-8 byte length of the stored \<open>content\<close>. For a binary asset \<open>size\<close> is the number of
  bytes of the response, while the stored content is the data URI of those bytes, which is
  always longer. For a payload file \<open>size\<close> is the byte length of
  \<open>JSON.stringify(data)\<close>, while the stored content is the serialisation of the object
  that wraps \<open>data\<close> with the URL, the status and the headers.
\<close>

theorem stored_size_by_stage:
  "f_size (inline_script_file env i c) = byteLength (f_content (inline_script_file env i c))
   \<and> f_size (inline_style_file env i c) = byteLength (f_content (inline_style_file env i c))
   \<and> f_size (source_file env c) = byteLength (f_content (source_file env c))
   \<and> (asset_file env p = Some file \<and> \<not> p_isBinary p \<longrightarrow>
        f_size file = byteLength (f_content file))
   \<and> (asset_file env p = Some file \<and> p_isBinary p \<longrightarrow>
        (\<exists>response. get_buffer env (p_url p) = Inr response
           \<and> f_size file = length (data response)
           \<and> f_content file = ''data:'' @ f_mimeType file @ '';base64,'' @ base64 (data response))
        \<and> f_size file < byteLength (f_content file))
   \<and> f_size (payload_file env u n r) = byteLength (JSON_stringify env (data r))
   \<and> f_content (payload_file env u n r)
        = JSON_stringify_wrapped env u (status_code r) (headers r) (data r)"
proof (intro conjI impI)
  show "f_size (inline_script_file env i c) = byteLength (f_content (inline_script_file env i c))"
    by (simp add: inline_script_file_def Let_def)
  show "f_size (inline_style_file env i c) = byteLength (f_content (inline_style_file env i c))"
    by (simp add: inline_style_file_def Let_def)
  show "f_size (source_file env c) = byteLength (f_content (source_file env c))"
    by (simp add: source_file_def)
  show "f_size (payload_file env u n r) = byteLength (JSON_stringify env (data r))"
    by (simp add: payload_file_def Let_def)
  show "f_content (payload_file env u n r)
        = JSON_stringify_wrapped env u (status_code r) (headers r) (data r)"
    by (simp add: payload_file_def Let_def)
next
  assume "asset_file env p = Some file \<and> \<not> p_isBinary p"
  then show "f_size file = byteLength (f_content file)"
    by (auto simp: asset_file_def Let_def split: sum.splits option.splits)
next
  assume a: "asset_file env p = Some file \<and> p_isBinary p"
  then obtain response where g: "get_buffer env (p_url p) = Inr response"
    by (cases "get_buffer env (p_url p)") (auto simp: asset_file_def Let_def)
  from a g have sz: "f_size file = length (data response)"
    and ct: "f_content file = ''data:'' @ f_mimeType file @ '';base64,'' @ base64 (data response)"
    by (auto simp: asset_file_def Let_def)
  from g sz ct show "\<exists>response. get_buffer env (p_url p) = Inr response
           \<and> f_size file = length (data response)
           \<and> f_content file = ''data:'' @ f_mimeType file @ '';base64,'' @ base64 (data response)"
    by blast
  show "f_size file < byteLength (f_content file)"
    unfolding sz ct by (rule data_uri_longer)
qed

theorem stored_size_by_stage_witness:
  "f_size ex_css_file = byteLength (f_content ex_css_file)
   \<and> (\<exists>response. get_buffer ex_env (p_url ex_logo) = Inr response
      \<and> f_size ex_logo_file = length (data response)
      \<and> f_content ex_logo_file
           = ''data:'' @ f_mimeType ex_logo_file @ '';base64,'' @ base64 (data response))
   \<and> f_size ex_logo_file < byteLength (f_content ex_logo_file)"
proof -
  have h1: "asset_file ex_env ex_css = Some ex_css_file \<and> \<not> p_isBinary ex_css"
    by code_simp
  have h2: "asset_file ex_env ex_logo = Some ex_logo_file \<and> p_isBinary ex_logo"
    by code_simp
  from stored_size_by_stage [of ex_env 0 "[]" ex_css ex_css_file "[]" 0 ex_api_response] h1
  have a: "f_size ex_css_file = byteLength (f_content ex_css_file)" by blast
  from stored_size_by_stage [of ex_env 0 "[]" ex_logo ex_logo_file "[]" 0 ex_api_response] h2
  have b: "(\<exists>response. get_buffer ex_env (p_url ex_logo) = Inr response
      \<and> f_size ex_logo_file = length (data response)
      \<and> f_content ex_logo_file
           = ''data:'' @ f_mimeType ex_logo_file @ '';base64,'' @ base64 (data response))
   \<and> f_size ex_logo_file < byteLength (f_content ex_logo_file)" by blast
  from a b show ?thesis by blast
qed

theorem binary_size_counterexample:
  "prepare_asset ex_env ''https://ex.com/logo.png'' = Some ex_logo
   \<and> asset_file ex_env ex_logo = Some ex_logo_file
   \<and> f_size ex_logo_file = 4
   \<and> byteLength (f_content ex_logo_file) = 30"
  by code_simp

lemma ex_run_with_source:
  "store (startExtraction ex_env Map.empty ''https://ex.com/'' True True) ex_uuid
     = Some (ex_completed True)"
  by code_simp

lemma ex_run_without_source:
  "store (startExtraction ex_env Map.empty ''https://ex.com/'' True False) ex_uuid
     = Some (ex_completed False)"
  by code_simp

lemma ex_draw: "randomUUID ex_env d = ex_uuid"
  by (simp add: ex_env_def)

section \<open>A failed root fetch\<close>

text \<open>
  C6, as the code has it. When the request for the root page is rejected, the run ends with
  the record in status \<open>failed\<close>, its \<open>error\<close> the message of the rejection unchanged
  (\<open>Unknown error\<close> when what was thrown is not an \<open>Error\<close>) and no files; the request
  for the root page is the only request made and the asset set stays empty. The stored
  message is empty exactly when the rejection is an \<open>Error\<close> whose message is empty.
\<close>

theorem root_fetch_failure:
  assumes "get_page env url = Inl e"
  shows "\<exists>r. store (startExtraction env m url includePayloads includeSourcePage)
                   (randomUUID env DrawExtractionId) = Some r
           \<and> x_status r = Failed \<and> x_error r = Some (error_message e) \<and> x_files r = []
           \<and> requests (startExtraction env m url includePayloads includeSourcePage)
                = [GetPage url]
           \<and> assets (startExtraction env m url includePayloads includeSourcePage) = []
           \<and> (error_message e = [] \<longleftrightarrow> e = JsError [])"
proof -
  have "error_message e = [] \<longleftrightarrow> e = JsError []"
    by (cases e) (simp_all add: error_message_def)
  then show ?thesis
    by (simp add: startExtraction_failed [OF assms] fresh_result_def)
qed

theorem root_fetch_failure_witness:
  "\<exists>r. store (startExtraction ex_env Map.empty ''https://down.example/'' True True) ex_uuid
              = Some r
     \<and> x_status r = Failed \<and> x_error r = Some ''timeout of 15000ms exceeded''
     \<and> x_files r = []
     \<and> requests (startExtraction ex_env Map.empty ''https://down.example/'' True True)
          = [GetPage ''https://down.example/'']
     \<and> assets (startExtraction ex_env Map.empty ''https://down.example/'' True True) = []"
proof -
  have h1: "get_page ex_env ''https://down.example/'' = Inl (JsError ''timeout of 15000ms exceeded'')"
    by (simp add: ex_env_def)
  from root_fetch_failure [OF h1, of Map.empty True True]
  show ?thesis by (simp add: ex_draw error_message_def)
qed

text \<open>
  The message is not always non-empty: a rejection that is an \<open>Error\<close> with an empty
  message leaves the record in status \<open>failed\<close> with the empty string as its \<open>error\<close>.
\<close>

theorem root_fetch_empty_message_counterexample:
  "get_page ex_env ''https://silent.example/'' = Inl (JsError [])
   \<and> store (startExtraction ex_env Map.empty ''https://silent.example/'' True True) ex_uuid
        = Some ex_silent_failed
   \<and> x_status ex_silent_failed = Failed
   \<and> x_error ex_silent_failed = Some []
   \<and> x_files ex_silent_failed = []"
  by code_simp

section \<open>The files of a completed run\<close>

lemma set_map_filter:
  "y \<in> set (List.map_filter g xs) \<longleftrightarrow> (\<exists>x \<in> set xs. g x = Some y)"
  by (induction xs) (auto simp: List.map_filter_simps split: option.splits)

lemma inline_files_member:
  "f \<in> set (inline_files mk els) \<Longrightarrow> \<exists>i c. f = mk i c"
  by (auto simp: inline_files_def set_map_filter inline_choice_def
      split: option.splits if_splits)

lemma payload_files_member:
  "f \<in> set (payload_files env n us) \<Longrightarrow> \<exists>u k r. f = payload_file env u k r"
  by (induction us arbitrary: n) (auto split: sum.splits if_splits)

lemma asset_file_path:
  "asset_file env p = Some f \<Longrightarrow>
   f_path f = getFolderPath (p_fileType p) @ ''/'' @ p_fileName p"
  by (auto simp: asset_file_def Let_def split: if_splits sum.splits option.splits)

lemma fetched_files_member:
  "f \<in> set (List.map_filter (fetched_file env) us) \<Longrightarrow> \<exists>p. asset_file env p = Some f"
  by (auto simp: set_map_filter fetched_file_def split: option.splits)

lemma inline_seed_paths:
  assumes "f \<in> set (inline_seed env doc)"
  shows "CHR ''/'' \<in> set (f_path f)"
proof -
  from assms consider
      (script) "f \<in> set (inline_files (inline_script_file env) (doc SelScriptNoSrc))"
    | (style) "f \<in> set (inline_files (inline_style_file env) (doc SelStyle))"
    by (auto simp: inline_seed_def)
  then show ?thesis
  proof cases
    case script
    then show ?thesis
      by (auto dest!: inline_files_member simp: inline_script_file_def Let_def)
  next
    case style
    then show ?thesis
      by (auto dest!: inline_files_member simp: inline_style_file_def Let_def)
  qed
qed

lemma later_files_paths:
  assumes "f \<in> set (later_files env url doc includePayloads)"
  shows "CHR ''/'' \<in> set (f_path f)"
proof -
  from assms consider
      (asset) "f \<in> set (List.map_filter (fetched_file env)
                            (settled env (page_assets env url doc)))"
    | (payload) "f \<in> set (payload_files env 0 (take 5 (potentialApiUrls env url doc)))"
    by (auto simp: later_files_def split: if_splits)
  then show ?thesis
  proof cases
    case asset
    then show ?thesis
      by (auto dest!: fetched_files_member asset_file_path)
  next
    case payload
    then show ?thesis
      by (auto dest!: payload_files_member simp: payload_file_def Let_def)
  qed
qed

lemma srv_asset_file_path:
  "srv_asset_file env u = Some f \<Longrightarrow> CHR ''/'' \<in> set (s_path f)"
  by (auto simp: srv_asset_file_def Let_def split: if_splits sum.splits option.splits)

lemma srv_inline_seed_paths:
  assumes "f \<in> set (srv_inline_seed env doc)"
  shows "CHR ''/'' \<in> set (s_path f)"
proof -
  from assms consider
      (script) "f \<in> set (inline_files (srv_inline_script_file env) (doc SelScriptNoSrc))"
    | (style) "f \<in> set (inline_files (srv_inline_style_file env) (doc SelStyle))"
    by (auto simp: srv_inline_seed_def)
  then show ?thesis
  proof cases
    case script
    then show ?thesis
      by (auto dest!: inline_files_member simp: srv_inline_script_file_def Let_def)
  next
    case style
    then show ?thesis
      by (auto dest!: inline_files_member simp: srv_inline_style_file_def Let_def)
  qed
qed

lemma srv_later_files_paths:
  assumes "f \<in> set (srv_later_files env url doc includePayloads)"
  shows "CHR ''/'' \<in> set (s_path f)"
  using assms
  by (auto simp: srv_later_files_def set_map_filter dest: srv_asset_file_path split: if_splits)

lemma source_files_without:
  "source_files env content False = Inr []" "srv_source_files env content False = Inr []"
  by (simp_all add: source_files_def srv_source_files_def)

text \<open>
  C9. A run started with \<open>includeSourcePage = false\<close> leaves no file whose path is
  \<open>index.html\<close>, whatever \<open>includePayloads\<close> is and whatever the page holds: every other
  file has a path of the form \<open>folder/name\<close>. This holds for both servers.
\<close>

theorem no_index_html_without_source_page:
  "(store (startExtraction env m url includePayloads False) (randomUUID env DrawExtractionId)
      = Some r \<longrightarrow> (\<forall>f \<in> set (x_files r). f_path f \<noteq> ''index.html''))
   \<and> (url \<noteq> [] \<and> srv_extractions (srv_startExtraction env st url includePayloads False)
         (randomUUID env DrawExtractionId) = Some e \<longrightarrow>
       (\<forall>f \<in> set (e_files e). s_path f \<noteq> ''index.html''))"
proof (intro conjI impI ballI)
  fix f
  assume r: "store (startExtraction env m url includePayloads False)
               (randomUUID env DrawExtractionId) = Some r"
    and f: "f \<in> set (x_files r)"
  have "CHR ''/'' \<in> set (f_path f)"
  proof (cases "get_page env url")
    case (Inl err)
    from r f show ?thesis
      by (auto simp: startExtraction_failed [OF Inl] fresh_result_def)
  next
    case (Inr mainResponse)
    show ?thesis
    proof (cases "load_page env (data mainResponse)")
      case (Inl err)
      from r f show ?thesis
        by (auto simp: startExtraction_load_failed [OF Inr Inl] fresh_result_def)
    next
      case load: (Inr doc)
      from r f have "f \<in> set (inline_seed env doc) \<or> f \<in> set (later_files env url doc includePayloads)"
        by (auto simp: startExtraction_completed [OF Inr load source_files_without(1)]
            with_files_def fresh_result_def)
      then show ?thesis
        by (auto dest: inline_seed_paths later_files_paths)
    qed
  qed
  then show "f_path f \<noteq> ''index.html''" by auto
next
  fix f
  assume a: "url \<noteq> [] \<and> srv_extractions (srv_startExtraction env st url includePayloads False)
               (randomUUID env DrawExtractionId) = Some e"
    and f: "f \<in> set (e_files e)"
  then have u: "url \<noteq> []" by simp
  have "CHR ''/'' \<in> set (s_path f)"
  proof (cases "get_page env url")
    case (Inl err)
    from a f show ?thesis
      by (auto simp: srv_startExtraction_failed [OF u Inl] srv_fresh_def)
  next
    case (Inr mainResponse)
    show ?thesis
    proof (cases "load_page env (data mainResponse)")
      case (Inl err)
      from a f show ?thesis
        by (auto simp: srv_startExtraction_load_failed [OF u Inr Inl] srv_fresh_def)
    next
      case load: (Inr doc)
      from a f have "f \<in> set (srv_inline_seed env doc)
                     \<or> f \<in> set (srv_later_files env url doc includePayloads)"
        by (auto simp: srv_startExtraction_completed [OF u Inr load source_files_without(2)]
            srv_fresh_def)
      then show ?thesis
        by (auto dest: srv_inline_seed_paths srv_later_files_paths)
    qed
  qed
  then show "s_path f \<noteq> ''index.html''" by auto
qed

lemma ex_srv_run_with_source:
  "srv_extractions (srv_startExtraction ex_env ex_srv_start ''https://ex.com/'' True True) ex_uuid
     = Some (ex_srv_completed True)"
  by code_simp

lemma ex_srv_run_without_source:
  "srv_extractions (srv_startExtraction ex_env ex_srv_start ''https://ex.com/'' True False) ex_uuid
     = Some (ex_srv_completed False)"
  by code_simp

theorem no_index_html_without_source_page_witness:
  "x_files (ex_completed False) = [ex_style_file, ex_logo_file, ex_css_file]
   \<and> f_path ex_style_file \<noteq> ''index.html''
   \<and> f_path ex_logo_file \<noteq> ''index.html''
   \<and> f_path ex_css_file \<noteq> ''index.html''
   \<and> e_files (ex_srv_completed False) = [ex_srv_style, ex_srv_css, ex_srv_logo]
   \<and> s_path ex_srv_style \<noteq> ''index.html''
   \<and> s_path ex_srv_css \<noteq> ''index.html''
   \<and> s_path ex_srv_logo \<noteq> ''index.html''"
proof -
  have h1: "store (startExtraction ex_env Map.empty ''https://ex.com/'' True False)
              (randomUUID ex_env DrawExtractionId) = Some (ex_completed False)"
    by (simp only: ex_draw ex_run_without_source)
  have h2: "''https://ex.com/'' \<noteq> [] \<and>
      srv_extractions (srv_startExtraction ex_env ex_srv_start ''https://ex.com/'' True False)
        (randomUUID ex_env DrawExtractionId) = Some (ex_srv_completed False)"
    by (simp add: ex_draw ex_srv_run_without_source)
  have f1: "x_files (ex_completed False) = [ex_style_file, ex_logo_file, ex_css_file]"
    by (simp add: ex_completed_def)
  have f2: "e_files (ex_srv_completed False) = [ex_srv_style, ex_srv_css, ex_srv_logo]"
    by (simp add: ex_srv_completed_def)
  from no_index_html_without_source_page [of ex_env Map.empty "''https://ex.com/''" True
         "ex_completed False" ex_srv_start "ex_srv_completed False"] h1 h2
  have "(\<forall>f \<in> set [ex_style_file, ex_logo_file, ex_css_file]. f_path f \<noteq> ''index.html'')
        \<and> (\<forall>f \<in> set [ex_srv_style, ex_srv_css, ex_srv_logo]. s_path f \<noteq> ''index.html'')"
    unfolding f1 f2 by blast
  then have "f_path ex_style_file \<noteq> ''index.html'' \<and> f_path ex_logo_file \<noteq> ''index.html''
      \<and> f_path ex_css_file \<noteq> ''index.html'' \<and> s_path ex_srv_style \<noteq> ''index.html''
      \<and> s_path ex_srv_css \<noteq> ''index.html'' \<and> s_path ex_srv_logo \<noteq> ''index.html''"
    by simp
  with f1 f2 show ?thesis by blast
qed

section \<open>The totals\<close>

text \<open>
  C2, as the code has it. In the store of storage.ts every append recomputes both totals from the
  whole sequence: after \<open>addFileToExtraction\<close>, whatever the totals were before,
  \<open>totalFiles\<close> is the length of \<open>files\<close> and \<open>totalSize\<close> the sum of their sizes, and so
  they are in the record every run leaves. The standalone server pushes files without
  touching the totals and recomputes them from the whole sequence once, on completion:
  they are right in every completed record.
\<close>

theorem totals_follow_files:
  "(m i = Some r \<longrightarrow>
      (\<exists>r'. addFileToExtraction m i f = (m(i \<mapsto> r'), Inr ())
         \<and> x_files r' = x_files r @ [f]
         \<and> x_totalFiles r' = length (x_files r')
         \<and> x_totalSize r' = sum_list (map f_size (x_files r'))))
   \<and> (store (startExtraction env m url includePayloads includeSourcePage)
         (randomUUID env DrawExtractionId) = Some done \<longrightarrow>
       x_totalFiles done = length (x_files done)
       \<and> x_totalSize done = sum_list (map f_size (x_files done)))
   \<and> e_totalFiles (srv_push e sf) = e_totalFiles e
   \<and> e_totalSize (srv_push e sf) = e_totalSize e
   \<and> (url \<noteq> [] \<and> srv_extractions (srv_startExtraction env st url includePayloads includeSourcePage)
         (randomUUID env DrawExtractionId) = Some sdone \<and> e_status sdone = Completed \<longrightarrow>
       e_totalFiles sdone = length (e_files sdone)
       \<and> e_totalSize sdone = sum_list (map s_size (e_files sdone)))"
proof (intro conjI impI)
  assume "m i = Some r"
  then show "\<exists>r'. addFileToExtraction m i f = (m(i \<mapsto> r'), Inr ())
         \<and> x_files r' = x_files r @ [f]
         \<and> x_totalFiles r' = length (x_files r')
         \<and> x_totalSize r' = sum_list (map f_size (x_files r'))"
    by (intro exI [of _ "with_files r [f]"])
       (simp add: addFileToExtraction_present with_files_def)
next
  assume d: "store (startExtraction env m url includePayloads includeSourcePage)
               (randomUUID env DrawExtractionId) = Some done"
  have "totals_ok done"
  proof (cases "get_page env url")
    case (Inl err)
    from d show ?thesis
      by (auto simp: startExtraction_failed [OF Inl] fresh_result_def totals_ok_def)
  next
    case (Inr mainResponse)
    show ?thesis
    proof (cases "load_page env (data mainResponse)")
      case (Inl err)
      from d show ?thesis
        by (auto simp: startExtraction_load_failed [OF Inr Inl] fresh_result_def totals_ok_def)
    next
      case load: (Inr doc)
      show ?thesis
      proof (cases "source_files env (data mainResponse) includeSourcePage")
        case (Inl err)
        from d show ?thesis
          by (auto simp: startExtraction_source_failed [OF Inr load Inl] with_files_def
              totals_ok_def)
      next
        case source: (Inr sfs)
        from d show ?thesis
          by (auto simp: startExtraction_completed [OF Inr load source] with_files_def
              totals_ok_def)
      qed
    qed
  qed
  then show "x_totalFiles done = length (x_files done)"
    and "x_totalSize done = sum_list (map f_size (x_files done))"
    by (simp_all add: totals_ok_def)
next
  show "e_totalFiles (srv_push e sf) = e_totalFiles e"
    and "e_totalSize (srv_push e sf) = e_totalSize e"
    by (simp_all add: srv_push_def)
next
  assume a: "url \<noteq> [] \<and> srv_extractions (srv_startExtraction env st url includePayloads includeSourcePage)
         (randomUUID env DrawExtractionId) = Some sdone \<and> e_status sdone = Completed"
  then have u: "url \<noteq> []" by simp
  have "e_totalFiles sdone = length (e_files sdone)
        \<and> e_totalSize sdone = sum_list (map s_size (e_files sdone))"
  proof (cases "get_page env url")
    case (Inl err)
    from a show ?thesis
      by (auto simp: srv_startExtraction_failed [OF u Inl] srv_fresh_def)
  next
    case (Inr mainResponse)
    show ?thesis
    proof (cases "load_page env (data mainResponse)")
      case (Inl err)
      from a show ?thesis
        by (auto simp: srv_startExtraction_load_failed [OF u Inr Inl] srv_fresh_def)
    next
      case load: (Inr doc)
      show ?thesis
      proof (cases "srv_source_files env (data mainResponse) includeSourcePage")
        case (Inl err)
        from a show ?thesis
          by (auto simp: srv_startExtraction_source_failed [OF u Inr load Inl] srv_fresh_def)
      next
        case source: (Inr sfs)
        from a show ?thesis
          by (auto simp: srv_startExtraction_completed [OF u Inr load source] srv_fresh_def)
      qed
    qed
  qed
  then show "e_totalFiles sdone = length (e_files sdone)"
    and "e_totalSize sdone = sum_list (map s_size (e_files sdone))"
    by simp_all
qed

theorem totals_follow_files_witness:
  "(\<exists>r'. addFileToExtraction [''e1'' \<mapsto> ex_result] ''e1'' ex_logo_file
            = ([''e1'' \<mapsto> r'], Inr ())
      \<and> x_files r' = [ex_logo_file] \<and> x_totalFiles r' = 1 \<and> x_totalSize r' = 4)
   \<and> x_totalFiles (ex_completed True) = length (x_files (ex_completed True))
   \<and> x_totalSize (ex_completed True) = sum_list (map f_size (x_files (ex_completed True)))
   \<and> e_totalFiles (ex_srv_completed True) = length (e_files (ex_srv_completed True))
   \<and> e_totalSize (ex_srv_completed True) = sum_list (map s_size (e_files (ex_srv_completed True)))"
proof -
  have h1: "[''e1'' \<mapsto> ex_result] ''e1'' = Some ex_result" by simp
  have h2: "store (startExtraction ex_env Map.empty ''https://ex.com/'' True True)
              (randomUUID ex_env DrawExtractionId) = Some (ex_completed True)"
    by (simp only: ex_draw ex_run_with_source)
  have h3: "''https://ex.com/'' \<noteq> [] \<and>
      srv_extractions (srv_startExtraction ex_env ex_srv_start ''https://ex.com/'' True True)
        (randomUUID ex_env DrawExtractionId) = Some (ex_srv_completed True)
      \<and> e_status (ex_srv_completed True) = Completed"
    by (simp add: ex_draw ex_srv_run_with_source ex_srv_completed_def)
  have f0: "x_files ex_result = []" by (simp add: ex_result_def)
  have s0: "f_size ex_logo_file = 4" by (simp add: ex_logo_file_def)
  from totals_follow_files [where m = "[''e1'' \<mapsto> ex_result]" and i = "''e1''"
         and r = ex_result and f = ex_logo_file, THEN conjunct1, rule_format, OF h1]
  obtain r' where "addFileToExtraction [''e1'' \<mapsto> ex_result] ''e1'' ex_logo_file
            = ([''e1'' \<mapsto> r'], Inr ())"
    and "x_files r' = x_files ex_result @ [ex_logo_file]"
    and "x_totalFiles r' = length (x_files r')"
    and "x_totalSize r' = sum_list (map f_size (x_files r'))"
    by auto
  then have a: "\<exists>r'. addFileToExtraction [''e1'' \<mapsto> ex_result] ''e1'' ex_logo_file
            = ([''e1'' \<mapsto> r'], Inr ())
      \<and> x_files r' = [ex_logo_file] \<and> x_totalFiles r' = 1 \<and> x_totalSize r' = 4"
    by (intro exI [of _ r']) (simp add: f0 s0)
  from totals_follow_files [where env = ex_env and m = Map.empty and url = "''https://ex.com/''"
         and includePayloads = True and includeSourcePage = True
         and ?done = "ex_completed True" and st = ex_srv_start
         and sdone = "ex_srv_completed True"] h2 h3
  have b: "x_totalFiles (ex_completed True) = length (x_files (ex_completed True))
   \<and> x_totalSize (ex_completed True) = sum_list (map f_size (x_files (ex_completed True)))
   \<and> e_totalFiles (ex_srv_completed True) = length (e_files (ex_srv_completed True))
   \<and> e_totalSize (ex_srv_completed True) = sum_list (map s_size (e_files (ex_srv_completed True)))"
    by blast
  from a b show ?thesis by blast
qed

theorem push_leaves_totals_counterexample:
  "e_files (fst (srv_scan_files ex_env (ex_dom ''<html>'') (PageText ''<html>'') True
                   (srv_fresh ex_env ''https://ex.com/'')))
     = [ex_srv_style, ex_srv_index]
   \<and> e_totalFiles (fst (srv_scan_files ex_env (ex_dom ''<html>'') (PageText ''<html>'') True
                          (srv_fresh ex_env ''https://ex.com/''))) = 0
   \<and> e_totalSize (fst (srv_scan_files ex_env (ex_dom ''<html>'') (PageText ''<html>'') True
                         (srv_fresh ex_env ''https://ex.com/''))) = 0"
  by code_simp

section \<open>Failing assets\<close>

lemma srv_isValidContent_Buf: "srv_isValidContent env (Buf b) url"
  by (simp add: srv_isValidContent_def is_buffer_def Let_def)

lemma prepare_asset_url: "prepare_asset env u = Some p \<Longrightarrow> p_url p = u"
  by (auto simp: prepare_asset_def Let_def split: if_splits option.splits)

lemma mset_settled:
  assumes "\<forall>b. mset (settle_order env b) = mset b"
  shows "mset (settled env assetArray) = mset assetArray"
proof -
  have "mset (concat (map (settle_order env) bs)) = mset (concat bs)" for bs
    by (induction bs) (simp_all add: assms)
  then show ?thesis
    by (simp add: settled_def concat_batches)
qed

lemma seed_files_text:
  "source_files env (PageText content) includeSourcePage
     = Inr (if includeSourcePage then [source_file env content] else [])"
  "srv_source_files env (PageText content) includeSourcePage
     = Inr (if includeSourcePage then [srv_source_file env content] else [])"
  "load_page env (PageText content) = Inr (cheerio env content)"
  by (simp_all add: source_files_def srv_source_files_def source_file_of_def
      srv_source_file_of_def load_page_def)

lemma source_files_throws:
  "source_files env content includeSourcePage = Inl e \<Longrightarrow> \<exists>j. content = PageJson j"
  "srv_source_files env content includeSourcePage = Inl e \<Longrightarrow> \<exists>j. content = PageJson j"
  by (auto simp: source_files_def srv_source_files_def source_file_of_def
      srv_source_file_of_def split: if_splits page_data.splits)

lemma load_page_throws: "load_page env content = Inl e \<Longrightarrow> \<exists>j. content = PageJson j"
  by (auto simp: load_page_def split: page_data.splits)

text \<open>
  C5. A run whose root page is fetched and that requests an asset ends in status
  \<open>completed\<close> with no error, whatever happens to the assets: the only way such a run
  fails is a root body that is not text, and then it fails before the first asset is
  requested. The files of the completed run are the inline files and the source page,
  then one file for each asset whose request and conversion succeed, in the order the
  requests settle, then the payload files. So it is for every root body that is text. An
  asset whose request is rejected gives no file; an asset whose request succeeds with a
  body of bytes, or of text for a text asset, gives one. Every asset of the page takes part
  exactly once, the settle order being a rearrangement of each batch. The standalone
  server does the same with the assets it fetches one after the other: no file for a
  rejected request, one file holding the response bytes for each other asset whose URL
  parses.
\<close>

theorem asset_failures_are_skipped:
  "(get_page env url = Inr mainResponse
      \<and> GetAsset u \<in> set (requests (startExtraction env m url includePayloads includeSourcePage))
      \<longrightarrow>
      (\<exists>r doc sfs. store (startExtraction env m url includePayloads includeSourcePage)
              (randomUUID env DrawExtractionId) = Some r
         \<and> x_status r = Completed \<and> x_error r = None
         \<and> load_page env (data mainResponse) = Inr doc
         \<and> source_files env (data mainResponse) includeSourcePage = Inr sfs
         \<and> x_files r =
             inline_seed env doc @ sfs
             @ List.map_filter (fetched_file env) (settled env (page_assets env url doc))
             @ (if includePayloads
                then payload_files env 0 (take 5 (potentialApiUrls env url doc))
                else [])))
   \<and> (get_page env url = Inr mainResponse \<and> data mainResponse = PageText content \<longrightarrow>
      (\<exists>r. store (startExtraction env m url includePayloads includeSourcePage)
              (randomUUID env DrawExtractionId) = Some r
         \<and> x_status r = Completed \<and> x_error r = None
         \<and> x_files r =
             seed_files env content includeSourcePage
             @ List.map_filter (fetched_file env)
                 (settled env (page_assets env url (cheerio env content)))
             @ (if includePayloads
                then payload_files env 0
                       (take 5 (potentialApiUrls env url (cheerio env content)))
                else [])))
   \<and> (get_page env url = Inr mainResponse \<longrightarrow>
      (\<exists>r. store (startExtraction env m url includePayloads includeSourcePage)
              (randomUUID env DrawExtractionId) = Some r
         \<and> (x_status r = Completed
            \<or> x_status r = Failed \<and> (\<exists>j. data mainResponse = PageJson j)
               \<and> requests (startExtraction env m url includePayloads includeSourcePage)
                    = [GetPage url])))
   \<and> ((\<forall>b. mset (settle_order env b) = mset b) \<longrightarrow>
        mset (settled env assetArray) = mset assetArray)
   \<and> (prepare_asset env u = Some p \<and> p_isBinary p \<and> get_buffer env u = Inl err \<longrightarrow>
        fetched_file env u = None)
   \<and> (prepare_asset env u = Some p \<and> \<not> p_isBinary p \<and> get_text env u = Inl err \<longrightarrow>
        fetched_file env u = None)
   \<and> (prepare_asset env u = Some p \<and> p_isBinary p \<and> get_buffer env u = Inr bresponse \<longrightarrow>
        (\<exists>f. fetched_file env u = Some f \<and> f_name f = p_fileName p))
   \<and> (prepare_asset env u = Some p \<and> \<not> p_isBinary p \<and> get_text env u = Inr tresponse
        \<and> data tresponse = TextString s \<longrightarrow>
        (\<exists>f. fetched_file env u = Some f \<and> f_name f = p_fileName p \<and> f_content f = s))
   \<and> (url \<noteq> [] \<and> get_page env url = Inr mainResponse
        \<and> GetAsset u \<notin> set (srv_requests st)
        \<and> GetAsset u \<in> set (srv_requests
              (srv_startExtraction env st url includePayloads includeSourcePage)) \<longrightarrow>
        (\<exists>e doc sfs.
             srv_extractions (srv_startExtraction env st url includePayloads includeSourcePage)
                (randomUUID env DrawExtractionId) = Some e
           \<and> e_status e = Completed \<and> e_error e = None
           \<and> load_page env (data mainResponse) = Inr doc
           \<and> srv_source_files env (data mainResponse) includeSourcePage = Inr sfs
           \<and> e_files e =
               srv_inline_seed env doc @ sfs
               @ (if includePayloads
                  then List.map_filter (srv_asset_file env)
                         (srv_validAssets (srv_scan_assets env url doc))
                  else [])))
   \<and> (url \<noteq> [] \<and> get_page env url = Inr mainResponse
        \<and> data mainResponse = PageText content \<longrightarrow>
        (\<exists>e. srv_extractions (srv_startExtraction env st url includePayloads includeSourcePage)
                (randomUUID env DrawExtractionId) = Some e
           \<and> e_status e = Completed \<and> e_error e = None
           \<and> e_files e =
               srv_seed_files env content includeSourcePage
               @ (if includePayloads
                  then List.map_filter (srv_asset_file env)
                         (srv_validAssets (srv_scan_assets env url (cheerio env content)))
                  else [])))
   \<and> (get_buffer env u = Inl err \<longrightarrow> srv_asset_file env u = None)
   \<and> (get_buffer env u = Inr bresponse \<and> url_parse env u None = Some parsed \<longrightarrow>
        (\<exists>f. srv_asset_file env u = Some f \<and> s_content f = Buf (data bresponse)))"
proof (intro conjI impI)
  assume a: "get_page env url = Inr mainResponse
      \<and> GetAsset u \<in> set (requests (startExtraction env m url includePayloads includeSourcePage))"
  then have page: "get_page env url = Inr mainResponse"
    and req: "GetAsset u \<in> set (requests (startExtraction env m url includePayloads
                                            includeSourcePage))"
    by simp_all
  show "\<exists>r doc sfs. store (startExtraction env m url includePayloads includeSourcePage)
              (randomUUID env DrawExtractionId) = Some r
         \<and> x_status r = Completed \<and> x_error r = None
         \<and> load_page env (data mainResponse) = Inr doc
         \<and> source_files env (data mainResponse) includeSourcePage = Inr sfs
         \<and> x_files r =
             inline_seed env doc @ sfs
             @ List.map_filter (fetched_file env) (settled env (page_assets env url doc))
             @ (if includePayloads
                then payload_files env 0 (take 5 (potentialApiUrls env url doc))
                else [])"
  proof (cases "load_page env (data mainResponse)")
    case (Inl e)
    from req show ?thesis
      by (simp add: startExtraction_load_failed(2) [OF page Inl])
  next
    case load: (Inr doc)
    show ?thesis
    proof (cases "source_files env (data mainResponse) includeSourcePage")
      case (Inl e)
      from req show ?thesis
        by (simp add: startExtraction_source_failed(2) [OF page load Inl])
    next
      case source: (Inr sfs)
      show ?thesis
        by (simp add: startExtraction_completed(1) [OF page load source] with_files_def
            fresh_result_def later_files_def load source)
    qed
  qed
next
  assume a: "get_page env url = Inr mainResponse \<and> data mainResponse = PageText content"
  then have page: "get_page env url = Inr mainResponse"
    and load: "load_page env (data mainResponse) = Inr (cheerio env content)"
    and source: "source_files env (data mainResponse) includeSourcePage
                   = Inr (if includeSourcePage then [source_file env content] else [])"
    by (simp_all add: seed_files_text)
  show "\<exists>r. store (startExtraction env m url includePayloads includeSourcePage)
              (randomUUID env DrawExtractionId) = Some r
         \<and> x_status r = Completed \<and> x_error r = None
         \<and> x_files r =
             seed_files env content includeSourcePage
             @ List.map_filter (fetched_file env)
                 (settled env (page_assets env url (cheerio env content)))
             @ (if includePayloads
                then payload_files env 0
                       (take 5 (potentialApiUrls env url (cheerio env content)))
                else [])"
    by (simp add: startExtraction_completed(1) [OF page load source] with_files_def
        fresh_result_def later_files_def seed_files_def)
next
  assume page: "get_page env url = Inr mainResponse"
  show "\<exists>r. store (startExtraction env m url includePayloads includeSourcePage)
              (randomUUID env DrawExtractionId) = Some r
         \<and> (x_status r = Completed
            \<or> x_status r = Failed \<and> (\<exists>j. data mainResponse = PageJson j)
               \<and> requests (startExtraction env m url includePayloads includeSourcePage)
                    = [GetPage url])"
  proof (cases "load_page env (data mainResponse)")
    case (Inl e)
    from load_page_throws [OF Inl] show ?thesis
      by (simp add: startExtraction_load_failed [OF page Inl])
  next
    case load: (Inr doc)
    show ?thesis
    proof (cases "source_files env (data mainResponse) includeSourcePage")
      case (Inl e)
      from source_files_throws(1) [OF Inl] show ?thesis
        by (simp add: startExtraction_source_failed [OF page load Inl])
    next
      case source: (Inr sfs)
      show ?thesis
        by (simp add: startExtraction_completed(1) [OF page load source])
    qed
  qed
next
  assume "\<forall>b. mset (settle_order env b) = mset b"
  then show "mset (settled env assetArray) = mset assetArray"
    by (rule mset_settled)
next
  assume "prepare_asset env u = Some p \<and> p_isBinary p \<and> get_buffer env u = Inl err"
  then show "fetched_file env u = None"
    by (auto simp: fetched_file_def asset_file_def Let_def dest: prepare_asset_url)
next
  assume "prepare_asset env u = Some p \<and> \<not> p_isBinary p \<and> get_text env u = Inl err"
  then show "fetched_file env u = None"
    by (auto simp: fetched_file_def asset_file_def Let_def dest: prepare_asset_url)
next
  assume "prepare_asset env u = Some p \<and> p_isBinary p \<and> get_buffer env u = Inr bresponse"
  then show "\<exists>f. fetched_file env u = Some f \<and> f_name f = p_fileName p"
    by (auto simp: fetched_file_def asset_file_def Let_def dest: prepare_asset_url)
next
  assume "prepare_asset env u = Some p \<and> \<not> p_isBinary p \<and> get_text env u = Inr tresponse
        \<and> data tresponse = TextString s"
  then show "\<exists>f. fetched_file env u = Some f \<and> f_name f = p_fileName p \<and> f_content f = s"
    by (auto simp: fetched_file_def asset_file_def Let_def dest: prepare_asset_url)
next
  assume a: "url \<noteq> [] \<and> get_page env url = Inr mainResponse
        \<and> GetAsset u \<notin> set (srv_requests st)
        \<and> GetAsset u \<in> set (srv_requests
              (srv_startExtraction env st url includePayloads includeSourcePage))"
  then have u: "url \<noteq> []" and page: "get_page env url = Inr mainResponse"
    and old: "GetAsset u \<notin> set (srv_requests st)"
    and req: "GetAsset u \<in> set (srv_requests
              (srv_startExtraction env st url includePayloads includeSourcePage))"
    by simp_all
  show "\<exists>e doc sfs.
             srv_extractions (srv_startExtraction env st url includePayloads includeSourcePage)
                (randomUUID env DrawExtractionId) = Some e
           \<and> e_status e = Completed \<and> e_error e = None
           \<and> load_page env (data mainResponse) = Inr doc
           \<and> srv_source_files env (data mainResponse) includeSourcePage = Inr sfs
           \<and> e_files e =
               srv_inline_seed env doc @ sfs
               @ (if includePayloads
                  then List.map_filter (srv_asset_file env)
                         (srv_validAssets (srv_scan_assets env url doc))
                  else [])"
  proof (cases "load_page env (data mainResponse)")
    case (Inl e)
    from req old show ?thesis
      by (simp add: srv_startExtraction_load_failed(2) [OF u page Inl])
  next
    case load: (Inr doc)
    show ?thesis
    proof (cases "srv_source_files env (data mainResponse) includeSourcePage")
      case (Inl e)
      from req old show ?thesis
        by (simp add: srv_startExtraction_source_failed(2) [OF u page load Inl])
    next
      case source: (Inr sfs)
      show ?thesis
        by (simp add: srv_startExtraction_completed(1) [OF u page load source] srv_fresh_def
            srv_later_files_def load source)
    qed
  qed
next
  assume a: "url \<noteq> [] \<and> get_page env url = Inr mainResponse
        \<and> data mainResponse = PageText content"
  then have u: "url \<noteq> []" and page: "get_page env url = Inr mainResponse"
    and load: "load_page env (data mainResponse) = Inr (cheerio env content)"
    and source: "srv_source_files env (data mainResponse) includeSourcePage
                   = Inr (if includeSourcePage then [srv_source_file env content] else [])"
    by (simp_all add: seed_files_text)
  show "\<exists>e. srv_extractions (srv_startExtraction env st url includePayloads includeSourcePage)
                (randomUUID env DrawExtractionId) = Some e
           \<and> e_status e = Completed \<and> e_error e = None
           \<and> e_files e =
               srv_seed_files env content includeSourcePage
               @ (if includePayloads
                  then List.map_filter (srv_asset_file env)
                         (srv_validAssets (srv_scan_assets env url (cheerio env content)))
                  else [])"
    by (simp add: srv_startExtraction_completed(1) [OF u page load source] srv_fresh_def
        srv_later_files_def srv_seed_files_def)
next
  assume "get_buffer env u = Inl err"
  then show "srv_asset_file env u = None"
    by (simp add: srv_asset_file_def)
next
  assume "get_buffer env u = Inr bresponse \<and> url_parse env u None = Some parsed"
  then show "\<exists>f. srv_asset_file env u = Some f \<and> s_content f = Buf (data bresponse)"
    by (simp add: srv_asset_file_def Let_def srv_isValidContent_Buf)
qed

lemma ex_requests:
  "requests (startExtraction ex_env Map.empty ''https://ex.com/'' True True)
     = [GetPage ''https://ex.com/'', GetAsset ''https://ex.com/a.css'',
        GetAsset ''https://ex.com/a.js'', GetAsset ''https://ex.com/logo.png'',
        GetProbe ''/api/status'', GetProbe ''/api/health'', GetProbe ''/api/version'',
        GetProbe ''/graphql'']"
  by code_simp

lemma ex_srv_requests:
  "srv_requests (srv_startExtraction ex_env ex_srv_start ''https://ex.com/'' True True)
     = [GetPage ''https://ex.com/'', GetAsset ''https://ex.com/a.css'',
        GetAsset ''https://ex.com/a.js'', GetAsset ''https://ex.com/logo.png'']"
  by code_simp

lemma ex_json_run:
  "store (startExtraction ex_env Map.empty ''https://api.example/status'' True True) ex_uuid
     = Some ex_json_failed"
  "requests (startExtraction ex_env Map.empty ''https://api.example/status'' True True)
     = [GetPage ''https://api.example/status'']"
  by code_simp+

lemma ex_srv_json_run:
  "map_option e_status
     (srv_extractions (srv_startExtraction ex_env ex_srv_start ''https://api.example/status''
                         True True) ex_uuid) = Some Failed"
  "map_option e_error
     (srv_extractions (srv_startExtraction ex_env ex_srv_start ''https://api.example/status''
                         True True) ex_uuid) = Some (Some ex_type_error)"
  "srv_requests (srv_startExtraction ex_env ex_srv_start ''https://api.example/status''
                   True True) = [GetPage ''https://api.example/status'']"
  by code_simp+

theorem asset_failures_are_skipped_witness:
  "GetAsset ''https://ex.com/a.js''
     \<in> set (requests (startExtraction ex_env Map.empty ''https://ex.com/'' True True))
   \<and> get_text ex_env ''https://ex.com/a.js''
       = Inl (JsError ''Request failed with status code 500'')
   \<and> x_status (ex_completed True) = Completed
   \<and> x_files (ex_completed True) = [ex_style_file, ex_index_file, ex_logo_file, ex_css_file]
   \<and> page_assets ex_env ''https://ex.com/'' (ex_dom ''<html>'')
        = [''https://ex.com/a.css'', ''https://ex.com/a.js'', ''https://ex.com/logo.png'']
   \<and> mset (settled ex_env [''https://ex.com/a.css'', ''https://ex.com/a.js'',
                            ''https://ex.com/logo.png''])
        = mset [''https://ex.com/a.css'', ''https://ex.com/a.js'', ''https://ex.com/logo.png'']
   \<and> fetched_file ex_env ''https://ex.com/a.js'' = None
   \<and> (\<exists>f. fetched_file ex_env ''https://ex.com/logo.png'' = Some f \<and> f_name f = ''logo.png'')
   \<and> x_status ex_json_failed = Failed
   \<and> requests (startExtraction ex_env Map.empty ''https://api.example/status'' True True)
        = [GetPage ''https://api.example/status'']
   \<and> e_status (ex_srv_completed True) = Completed
   \<and> e_files (ex_srv_completed True) = [ex_srv_style, ex_srv_index, ex_srv_css, ex_srv_logo]
   \<and> srv_asset_file ex_env ''https://ex.com/a.js'' = None"
proof -
  have h1: "get_page ex_env ''https://ex.com/'' = Inr ex_page_response
      \<and> GetAsset ''https://ex.com/a.js''
          \<in> set (requests (startExtraction ex_env Map.empty ''https://ex.com/'' True True))"
    by (simp add: ex_requests) (simp add: ex_env_def)
  have h2: "\<forall>b. mset (settle_order ex_env b) = mset b"
    by (simp add: ex_env_def)
  have h3: "prepare_asset ex_env ''https://ex.com/a.js'' = Some ex_js \<and> \<not> p_isBinary ex_js
      \<and> get_text ex_env ''https://ex.com/a.js'' = Inl (JsError ''Request failed with status code 500'')"
    by code_simp
  have h4: "prepare_asset ex_env ''https://ex.com/logo.png'' = Some ex_logo \<and> p_isBinary ex_logo
      \<and> get_buffer ex_env ''https://ex.com/logo.png'' = Inr ex_png_response"
    by code_simp
  have h5: "''https://ex.com/'' \<noteq> [] \<and> get_page ex_env ''https://ex.com/'' = Inr ex_page_response
      \<and> GetAsset ''https://ex.com/a.js'' \<notin> set (srv_requests ex_srv_start)
      \<and> GetAsset ''https://ex.com/a.js''
           \<in> set (srv_requests (srv_startExtraction ex_env ex_srv_start ''https://ex.com/''
                                  True True))"
    by (simp add: ex_srv_requests) (simp add: ex_env_def ex_srv_start_def)
  have h6: "get_buffer ex_env ''https://ex.com/a.js'' = Inl (JsError ''Request failed with status code 500'')"
    by (simp add: ex_env_def)
  have pa: "page_assets ex_env ''https://ex.com/'' (ex_dom ''<html>'')
        = [''https://ex.com/a.css'', ''https://ex.com/a.js'', ''https://ex.com/logo.png'']"
    by code_simp
  have js: "x_status ex_json_failed = Failed" by (simp add: ex_json_failed_def)
  note t = asset_failures_are_skipped [where env = ex_env and url = "''https://ex.com/''"
      and mainResponse = ex_page_response and m = Map.empty and includePayloads = True
      and includeSourcePage = True and st = ex_srv_start and content = "''<html>''"
      and assetArray = "[''https://ex.com/a.css'', ''https://ex.com/a.js'',
                          ''https://ex.com/logo.png'']"]
  from t [where u = "''https://ex.com/a.js''" and p = ex_js
            and err = "JsError ''Request failed with status code 500''"] h1 h2 h3 h5 h6
  have a: "(\<exists>r. store (startExtraction ex_env Map.empty ''https://ex.com/'' True True)
              (randomUUID ex_env DrawExtractionId) = Some r \<and> x_status r = Completed)
     \<and> mset (settled ex_env [''https://ex.com/a.css'', ''https://ex.com/a.js'',
                            ''https://ex.com/logo.png''])
        = mset [''https://ex.com/a.css'', ''https://ex.com/a.js'', ''https://ex.com/logo.png'']
     \<and> fetched_file ex_env ''https://ex.com/a.js'' = None
     \<and> (\<exists>e. srv_extractions (srv_startExtraction ex_env ex_srv_start ''https://ex.com/'' True True)
              (randomUUID ex_env DrawExtractionId) = Some e \<and> e_status e = Completed)
     \<and> srv_asset_file ex_env ''https://ex.com/a.js'' = None"
    by blast
  from t [where u = "''https://ex.com/logo.png''" and p = ex_logo
            and bresponse = ex_png_response] h4
  have b: "\<exists>f. fetched_file ex_env ''https://ex.com/logo.png'' = Some f \<and> f_name f = p_fileName ex_logo"
    by blast
  from b have b': "\<exists>f. fetched_file ex_env ''https://ex.com/logo.png'' = Some f
                     \<and> f_name f = ''logo.png''"
    by (simp add: ex_logo_def)
  have c: "x_status (ex_completed True) = Completed"
    "x_files (ex_completed True) = [ex_style_file, ex_index_file, ex_logo_file, ex_css_file]"
    "e_status (ex_srv_completed True) = Completed"
    "e_files (ex_srv_completed True) = [ex_srv_style, ex_srv_index, ex_srv_css, ex_srv_logo]"
    by (simp_all add: ex_completed_def ex_srv_completed_def)
  from a b' pa h1 h3 js c ex_json_run(2) show ?thesis
    by blast
qed

section \<open>References inside a stylesheet\<close>

text \<open>
  C3, on the example site. The stylesheet \<open>a.css\<close> of the page is fetched and holds
  \<open>@import url(b.css)\<close>. The run adds \<open>https://ex.com/b.css\<close> to its asset set, and that
  stylesheet could be fetched, but the batches run over the array made from the set before
  the first batch: \<open>b.css\<close> is never requested and no file is stored for it.
\<close>

theorem imported_stylesheet_never_requested:
  "assets (startExtraction ex_env Map.empty ''https://ex.com/'' True True)
     = [''https://ex.com/a.css'', ''https://ex.com/a.js'', ''https://ex.com/logo.png'',
        ''https://ex.com/b.css'']
   \<and> requests (startExtraction ex_env Map.empty ''https://ex.com/'' True True)
     = [GetPage ''https://ex.com/'', GetAsset ''https://ex.com/a.css'',
        GetAsset ''https://ex.com/a.js'', GetAsset ''https://ex.com/logo.png'',
        GetProbe ''/api/status'', GetProbe ''/api/health'', GetProbe ''/api/version'',
        GetProbe ''/graphql'']
   \<and> store (startExtraction ex_env Map.empty ''https://ex.com/'' True True) ex_uuid
     = Some (ex_completed True)
   \<and> map f_name (x_files (ex_completed True))
     = [''inline-style-0f8fad5b.css'', ''index.html'', ''logo.png'', ''a.css'']
   \<and> map_option f_path (fetched_file ex_env ''https://ex.com/b.css'') = Some ''css/b.css''"
  by code_simp


section \<open>References that do not parse\<close>

lemma srv_validAssets_member:
  "a \<in> set (srv_validAssets as) \<Longrightarrow> Some a \<in> set as \<and> a \<noteq> [] \<and> \<not> startsWith a ''data:''"
  by (auto simp: srv_validAssets_def set_map_filter split: option.splits if_splits)

text \<open>
  C4, as the code has it. For a reference that does not parse against the base, \<open>resolveUrl\<close> of
  routes.ts returns the reference itself (its result is a string, never \<open>null\<close>), and
  \<open>resolveUrl\<close> of the standalone server returns \<open>null\<close>; that one returns a URL only for
  a reference that parses. Neither caller fails on such a reference: in routes.ts the
  batch member of a URL that does not parse makes no request and leaves the state as it
  was, and the standalone server requests only the strings of its asset set, never \<open>null\<close>.
\<close>

theorem unparseable_references_are_skipped:
  "(url_parse env relative (Some base) = None \<longrightarrow>
      resolveUrl env base relative = relative \<and> srv_resolveUrl env base relative = None)
   \<and> (srv_resolveUrl env base relative = Some resolved \<longrightarrow>
        (\<exists>parsed. url_parse env relative (Some base) = Some parsed \<and> resolved = href parsed))
   \<and> (url_parse env u None = None \<longrightarrow>
        prepare_asset env u = None \<and> fetched_file env u = None
        \<and> settle_asset env i st u = st
        \<and> requests (process_batch env i st [u]) = requests st)
   \<and> (\<forall>a \<in> set (srv_validAssets as). Some a \<in> set as)"
proof (intro conjI impI ballI)
  assume "url_parse env relative (Some base) = None"
  then show "resolveUrl env base relative = relative"
    and "srv_resolveUrl env base relative = None"
    by (simp_all add: resolveUrl_def srv_resolveUrl_def)
next
  assume "srv_resolveUrl env base relative = Some resolved"
  then show "\<exists>parsed. url_parse env relative (Some base) = Some parsed \<and> resolved = href parsed"
    by (auto simp: srv_resolveUrl_def split: option.splits)
next
  assume a: "url_parse env u None = None"
  then show p: "prepare_asset env u = None"
    by (simp add: prepare_asset_def)
  then show "fetched_file env u = None"
    by (simp add: fetched_file_def)
  from p show "settle_asset env i st u = st"
    by (simp add: settle_asset_def)
  from p show "requests (process_batch env i st [u]) = requests st"
    by (simp add: process_batch_requests)
next
  fix a
  assume "a \<in> set (srv_validAssets as)"
  then show "Some a \<in> set as"
    by (simp add: srv_validAssets_member)
qed

theorem unparseable_references_are_skipped_witness:
  "resolveUrl ex_env ''https://ex.com/'' ''http://['' = ''http://[''
   \<and> srv_resolveUrl ex_env ''https://ex.com/'' ''http://['' = None
   \<and> srv_resolveUrl ex_env ''https://ex.com/'' ''/a.css'' = Some ''https://ex.com/a.css''
   \<and> prepare_asset ex_env ''http://['' = None
   \<and> fetched_file ex_env ''http://['' = None
   \<and> srv_validAssets [Some ''https://ex.com/a.css'', None] = [''https://ex.com/a.css'']
   \<and> Some ''https://ex.com/a.css'' \<in> set [Some ''https://ex.com/a.css'', None]"
proof -
  have h1: "url_parse ex_env ''http://['' (Some ''https://ex.com/'') = None"
    by code_simp
  have h2: "url_parse ex_env ''http://['' None = None"
    by code_simp
  have h3: "srv_validAssets [Some ''https://ex.com/a.css'', None] = [''https://ex.com/a.css'']"
    by code_simp
  have h4: "srv_resolveUrl ex_env ''https://ex.com/'' ''/a.css'' = Some ''https://ex.com/a.css''"
    by code_simp
  have h5: "''https://ex.com/a.css'' \<in> set (srv_validAssets [Some ''https://ex.com/a.css'', None])"
    by (simp only: h3) simp
  from unparseable_references_are_skipped [where env = ex_env and relative = "''http://[''"
         and base = "''https://ex.com/''" and u = "''http://[''"
         and as = "[Some ''https://ex.com/a.css'', None]"] h1 h2 h5
  have "resolveUrl ex_env ''https://ex.com/'' ''http://['' = ''http://[''
   \<and> srv_resolveUrl ex_env ''https://ex.com/'' ''http://['' = None
   \<and> prepare_asset ex_env ''http://['' = None
   \<and> fetched_file ex_env ''http://['' = None
   \<and> Some ''https://ex.com/a.css'' \<in> set [Some ''https://ex.com/a.css'', None]"
    by blast
  with h3 h4 show ?thesis by blast
qed

theorem resolveUrl_returns_reference_counterexample:
  "url_parse ex_env ''http://['' (Some ''https://ex.com/'') = None
   \<and> resolveUrl ex_env ''https://ex.com/'' ''http://['' = ''http://[''"
  by code_simp

section \<open>Classification\<close>

text \<open>
  C7, as the code has it. Both classifiers are functions of their arguments (the one of the
  standalone server also of the URL parser) and give a category for every input. In
  routes.ts the category is one of html, css, js, image, payload, other, and the folder is
  css, js, images, payloads for the categories css, js, image, payload and assets for the
  rest. In the standalone server the category is one of html, css, js, image, font, json,
  xml, other, and the folder is css, js, images, fonts for css, js, image, font and assets
  for the rest.
\<close>

theorem classification_is_total:
  "getFileType fileName \<in> {Html, Css, Js, Image, Payload, Other}
   \<and> getFolderPath Css = ''css'' \<and> getFolderPath Js = ''js''
   \<and> getFolderPath Image = ''images'' \<and> getFolderPath Payload = ''payloads''
   \<and> getFolderPath Html = ''assets'' \<and> getFolderPath Other = ''assets''
   \<and> srv_getFileType env url mimeType
        \<in> set [''html'', ''css'', ''js'', ''image'', ''font'', ''json'', ''xml'', ''other'']
   \<and> srv_folder ''css'' = ''css'' \<and> srv_folder ''js'' = ''js''
   \<and> srv_folder ''image'' = ''images'' \<and> srv_folder ''font'' = ''fonts''
   \<and> srv_folder ''html'' = ''assets'' \<and> srv_folder ''json'' = ''assets''
   \<and> srv_folder ''xml'' = ''assets'' \<and> srv_folder ''other'' = ''assets''"
proof -
  have "getFileType fileName \<in> {Html, Css, Js, Image, Payload, Other}"
    by (cases "getFileType fileName") simp_all
  moreover have "srv_getFileType env url mimeType
        \<in> set [''html'', ''css'', ''js'', ''image'', ''font'', ''json'', ''xml'', ''other'']"
    unfolding srv_getFileType_def Let_def by (simp split: if_splits)
  ultimately show ?thesis
    by (simp add: srv_folder_def)
qed

theorem font_category_counterexample:
  "srv_getFileType ex_env ''https://ex.com/font.woff2'' None = ''font''
   \<and> srv_getFileType ex_env ''https://ex.com/font.woff2'' (Some ''font/woff2'') = ''font''
   \<and> ''font'' \<notin> set [''html'', ''css'', ''js'', ''image'', ''payload'', ''other'']
   \<and> srv_folder ''font'' = ''fonts''"
  by code_simp

end
